theory Spec2Isabelle
  imports Main
begin

section \<open>Data model\<close>

text \<open>
  A Go \<open>error\<close> is modelled by its message (\<open>err.Error()\<close>); \<open>fmt.Errorf("...: %w", err)\<close>
  prefixes the message of the wrapped error.
\<close>

datatype error = Errorf string

fun msg :: "error \<Rightarrow> string" where
  "msg (Errorf s) = s"

definition wrap :: "string \<Rightarrow> error \<Rightarrow> error" where
  "wrap prefix err = Errorf (prefix @ msg err)"

text \<open>The \<open>%d\<close> verb of \<open>fmt.Printf\<close>: decimal rendering of an integer.\<close>

fun digits :: "nat \<Rightarrow> string" where
  "digits n = (if n < 10 then [char_of (48 + n)]
               else digits (n div 10) @ [char_of (48 + n mod 10)])"

declare digits.simps [simp del]

definition Itoa :: "int \<Rightarrow> string" where
  "Itoa i = (if i < 0 then CHR ''-'' # digits (nat (- i)) else digits (nat i))"

text \<open>\<open>repoInfo\<close>, the value bound to a request context under \<open>repoContextKey\<close>.\<close>

record repoInfo =
  Owner :: string
  Repo :: string

text \<open>
  An outbound \<open>*http.Request\<close>: method, URL, header (\<open>Header.Set\<close> replaces the value of a
  key) and what the request context holds under \<open>repoContextKey\<close>.
\<close>

record request =
  req_method :: string
  req_url :: string
  req_header :: "string \<rightharpoonup> string"
  req_ctx :: "repoInfo option"

record response =
  StatusCode :: nat
  Status :: string
  Body :: string

record ghInstallation =
  ID :: int
  Login :: string
  RepositorySelection :: string

record githubFileAsset =
  Name :: string
  ContentType :: string
  BrowserDownloadURL :: string
  URL :: string

record AppConfig =
  PrivateKey :: string
  AppId :: "int option"
  ClientId :: "string option"
  InstallationId :: "int option"
  ListenAddress :: string

text \<open>
  An installation token source is an object: its address (two sources built from the same
  installation id are still two objects) and the installation id it was built from.
\<close>

datatype source = InstallationTokenSource (addr: nat) (installation: int)

text \<open>
  The calls that leave the process, in the order they happen:
  \<open>tm.appTokenSource.Token()\<close>, \<open>http.DefaultClient.Do(req)\<close>, \<open>ts.Token()\<close> on an
  installation token source, and \<open>http.DefaultTransport.RoundTrip(req)\<close>.
\<close>

datatype event =
    AppToken
  | ClientDo request
  | SourceToken source
  | DefaultRoundTrip request

text \<open>
  What lies outside the repository (GitHub, the libraries \<open>go-githubauth\<close>, \<open>oauth2\<close>,
  \<open>net/http\<close>, \<open>net/url\<close> and \<open>encoding/json\<close>) is a parameter: every reply may depend
  on all the calls made so far.
\<close>

record env =
  new_app_source :: "int + string \<Rightarrow> string \<Rightarrow> error option"
  app_token :: "event list \<Rightarrow> error + string"
  client_do :: "event list \<Rightarrow> request \<Rightarrow> error + response"
  source_token :: "event list \<Rightarrow> source \<Rightarrow> error + string"
  round_trip :: "event list \<Rightarrow> request \<Rightarrow> error + response"
  url_error :: "string \<Rightarrow> error option"
  join_path :: "string \<Rightarrow> string list \<Rightarrow> string"
  decode_installation :: "string \<Rightarrow> error + ghInstallation"
  decode_installations :: "string \<Rightarrow> error + ghInstallation list"
  decode_assets :: "string \<Rightarrow> error + githubFileAsset list"

text \<open>
  The state of the process: the two mutable parts of the \<open>TokenManager\<close>
  (\<open>installationId\<close> is set once, by \<open>NewTokenManager\<close>; \<open>cache\<close> maps an owner to its
  token source), the number of token sources allocated so far, the calls made so far and
  what was printed on standard output.
\<close>

record world =
  installationId :: "int option"
  cache :: "string \<rightharpoonup> source"
  allocated :: nat
  trace :: "event list"
  stdout :: "string list"

section \<open>auth.go\<close>

definition Printf :: "string \<Rightarrow> world \<Rightarrow> world" where
  "Printf s w = w\<lparr>stdout := stdout w @ [s]\<rparr>"

definition call :: "event \<Rightarrow> world \<Rightarrow> world" where
  "call e w = w\<lparr>trace := trace w @ [e]\<rparr>"

definition NewRequest :: "env \<Rightarrow> repoInfo option \<Rightarrow> string \<Rightarrow> string \<Rightarrow> error + request" where
  "NewRequest E ctx method url =
     (case url_error E url of
        Some err \<Rightarrow> Inl err
      | None \<Rightarrow> Inr \<lparr>req_method = method, req_url = url, req_header = Map.empty, req_ctx = ctx\<rparr>)"

definition Header_Set :: "string \<Rightarrow> string \<Rightarrow> request \<Rightarrow> request" where
  "Header_Set k v req = req\<lparr>req_header := (req_header req)(k \<mapsto> v)\<rparr>"

definition NewInstallationTokenSource :: "int \<Rightarrow> world \<Rightarrow> source \<times> world" where
  "NewInstallationTokenSource i w =
     (InstallationTokenSource (allocated w) i, w\<lparr>allocated := Suc (allocated w)\<rparr>)"

definition Token :: "env \<Rightarrow> source \<Rightarrow> world \<Rightarrow> (error + string) \<times> world" where
  "Token E ts w = (source_token E (trace w) ts, call (SourceToken ts) w)"

definition getOrSetSource ::
  "string \<Rightarrow> (world \<Rightarrow> source \<times> world) \<Rightarrow> world \<Rightarrow> source \<times> world" where
  "getOrSetSource owner factory w =
     (case cache w owner of
        Some ts \<Rightarrow> (ts, w)
      | None \<Rightarrow>
          (case factory w of
             (ts, w') \<Rightarrow> (ts, w'\<lparr>cache := (cache w')(owner \<mapsto> ts)\<rparr>)))"

definition lookupRepoInstallation ::
  "env \<Rightarrow> string \<Rightarrow> string \<Rightarrow> world \<Rightarrow> (error + int) \<times> world" where
  "lookupRepoInstallation E owner repo w =
     (case app_token E (trace w) of
        Inl err \<Rightarrow> (Inl (wrap ''getting app token: '' err), call AppToken w)
      | Inr token \<Rightarrow>
          (case NewRequest E None ''GET''
                  (''https://api.github.com/repos/'' @ owner @ ''/'' @ repo @ ''/installation'') of
             Inl err \<Rightarrow> (Inl err, call AppToken w)
           | Inr req0 \<Rightarrow>
               (let req = Header_Set ''Accept'' ''application/vnd.github+json''
                            (Header_Set ''Authorization'' (''Bearer '' @ token) req0);
                    w1 = call AppToken w;
                    w2 = call (ClientDo req) w1
                in case client_do E (trace w1) req of
                     Inl err \<Rightarrow> (Inl err, w2)
                   | Inr resp \<Rightarrow>
                       if StatusCode resp \<noteq> 200
                       then (Inl (Errorf (''GitHub API returned '' @ Status resp @ '' for '' @ owner
                                            @ ''/'' @ repo @ '' installation lookup'')), w2)
                       else (case decode_installation E (Body resp) of
                               Inl err \<Rightarrow> (Inl (wrap ''decoding installation response: '' err), w2)
                             | Inr inst \<Rightarrow>
                                 (Inr (ID inst),
                                  Printf (''Discovered installation '' @ Itoa (ID inst) @ '' (''
                                          @ Login inst @ '') for '' @ owner @ ''/'' @ repo
                                          @ [CHR 0x0A]) w2)))))"

definition TokenForRepo ::
  "env \<Rightarrow> string \<Rightarrow> string \<Rightarrow> world \<Rightarrow> (error + string) \<times> world" where
  "TokenForRepo E owner repo w =
     (case installationId w of
        Some fixed \<Rightarrow>
          (case getOrSetSource owner (NewInstallationTokenSource fixed) w of
             (ts, w1) \<Rightarrow> Token E ts w1)
      | None \<Rightarrow>
          (case cache w owner of
             Some ts \<Rightarrow> Token E ts w
           | None \<Rightarrow>
               (case lookupRepoInstallation E owner repo w of
                  (Inl err, w1) \<Rightarrow>
                    (Inl (wrap (''looking up installation for '' @ owner @ ''/'' @ repo @ '': '') err),
                     w1)
                | (Inr installationID, w1) \<Rightarrow>
                    (case getOrSetSource owner (NewInstallationTokenSource installationID) w1 of
                       (ts, w2) \<Rightarrow> Token E ts w2))))"

definition discoverInstallations :: "env \<Rightarrow> world \<Rightarrow> (error + ghInstallation list) \<times> world" where
  "discoverInstallations E w =
     (case app_token E (trace w) of
        Inl err \<Rightarrow> (Inl (wrap ''getting app token: '' err), call AppToken w)
      | Inr token \<Rightarrow>
          (case NewRequest E None ''GET'' ''https://api.github.com/app/installations'' of
             Inl err \<Rightarrow> (Inl err, call AppToken w)
           | Inr req0 \<Rightarrow>
               (let req = Header_Set ''Accept'' ''application/vnd.github+json''
                            (Header_Set ''Authorization'' (''Bearer '' @ token) req0);
                    w1 = call AppToken w;
                    w2 = call (ClientDo req) w1
                in case client_do E (trace w1) req of
                     Inl err \<Rightarrow> (Inl err, w2)
                   | Inr resp \<Rightarrow>
                       if StatusCode resp \<noteq> 200
                       then (Inl (Errorf (''GitHub API returned '' @ Status resp)), w2)
                       else (case decode_installations E (Body resp) of
                               Inl err \<Rightarrow> (Inl (wrap ''decoding installations response: '' err), w2)
                             | Inr installations \<Rightarrow> (Inr installations, w2)))))"

text \<open>The line printed for one installation, by \<open>NewTokenManager\<close> and \<open>buildTokenSource\<close>.\<close>

definition installation_line :: "ghInstallation \<Rightarrow> string" where
  "installation_line inst =
     ''  - '' @ Login inst @ '' (installation ID: '' @ Itoa (ID inst) @ '')'' @ [CHR 0x0A]"

fun print_installations :: "ghInstallation list \<Rightarrow> world \<Rightarrow> world" where
  "print_installations [] w = w"
| "print_installations (inst # insts) w =
     print_installations insts (Printf (installation_line inst) w)"

text \<open>
  The \<open>switch\<close> that opens \<open>NewTokenManager\<close> and \<open>buildTokenSource\<close>: the application token
  source is made from \<open>appId\<close> when it is set, else from \<open>clientId\<close>.
\<close>

definition appTokenSource :: "env \<Rightarrow> AppConfig \<Rightarrow> string \<Rightarrow> error option" where
  "appTokenSource E config privateKey =
     (case AppId config of
        Some a \<Rightarrow> map_option (wrap ''creating application token source: '')
                    (new_app_source E (Inl a) privateKey)
      | None \<Rightarrow>
          (case ClientId config of
             Some c \<Rightarrow> map_option (wrap ''creating application token source: '')
                         (new_app_source E (Inr c) privateKey)
           | None \<Rightarrow> Some (Errorf ''config must set either appId or clientId'')))"

definition NewTokenManager :: "env \<Rightarrow> AppConfig \<Rightarrow> string \<Rightarrow> world \<Rightarrow> error option \<times> world" where
  "NewTokenManager E config privateKey w =
     (case appTokenSource E config privateKey of
        Some err \<Rightarrow> (Some err, w)
      | None \<Rightarrow>
          (let tm = w\<lparr>installationId := InstallationId config, cache := Map.empty\<rparr>
           in case discoverInstallations E tm of
                (Inl err, w1) \<Rightarrow>
                  (None, Printf (''Warning: could not list installations: '' @ msg err @ [CHR 0x0A]) w1)
              | (Inr installations, w1) \<Rightarrow>
                  if length installations = 0
                  then (None, Printf (''Warning: no installations found; install the GitHub App on an account first''
                                      @ [CHR 0x0A]) w1)
                  else (None, print_installations installations
                                (Printf (''Available installations:'' @ [CHR 0x0A]) w1))))"

section \<open>The token source chosen once at startup\<close>

definition buildTokenSource ::
  "env \<Rightarrow> AppConfig \<Rightarrow> string \<Rightarrow> world \<Rightarrow> (error + source) \<times> world" where
  "buildTokenSource E config privateKey w =
     (case appTokenSource E config privateKey of
        Some err \<Rightarrow> (Inl err, w)
      | None \<Rightarrow>
          (case InstallationId config of
             Some i \<Rightarrow> (case NewInstallationTokenSource i w of (ts, w1) \<Rightarrow> (Inr ts, w1))
           | None \<Rightarrow>
               (case discoverInstallations E w of
                  (Inl err, w1) \<Rightarrow> (Inl (wrap ''discovering installations: '' err), w1)
                | (Inr installations, w1) \<Rightarrow>
                    (case installations of
                       [] \<Rightarrow>
                         (Inl (Errorf ''no installations found; install the GitHub App on an account first''),
                          w1)
                     | [inst] \<Rightarrow>
                         (case NewInstallationTokenSource (ID inst)
                                 (Printf (''Using installation '' @ Itoa (ID inst) @ '' (''
                                          @ Login inst @ '')'' @ [CHR 0x0A]) w1) of
                            (ts, w2) \<Rightarrow> (Inr ts, w2))
                     | _ \<Rightarrow>
                         (Inl (Errorf ''multiple installations found; set installationId in config to select one''),
                          print_installations installations
                            (Printf (''Multiple installations found:'' @ [CHR 0x0A]) w1))))))"

section \<open>Runs of calls\<close>

text \<open>A run of \<open>getOrSetSource\<close> calls, each with the factory \<open>TokenForRepo\<close> passes.\<close>

fun getOrSetSources :: "(string \<times> int) list \<Rightarrow> world \<Rightarrow> source list \<times> world" where
  "getOrSetSources [] w = ([], w)"
| "getOrSetSources ((owner, i) # cs) w =
     (case getOrSetSource owner (NewInstallationTokenSource i) w of
        (ts, w1) \<Rightarrow> (case getOrSetSources cs w1 of (tss, w2) \<Rightarrow> (ts # tss, w2)))"

text \<open>A run of \<open>TokenForRepo\<close> calls, one per (owner, repo).\<close>

fun TokenForRepos :: "env \<Rightarrow> (string \<times> string) list \<Rightarrow> world \<Rightarrow> (error + string) list \<times> world" where
  "TokenForRepos E [] w = ([], w)"
| "TokenForRepos E ((owner, repo) # cs) w =
     (case TokenForRepo E owner repo w of
        (r, w1) \<Rightarrow> (case TokenForRepos E cs w1 of (rs, w2) \<Rightarrow> (r # rs, w2)))"

section \<open>proxy.go\<close>

definition withRepo :: "string \<Rightarrow> string \<Rightarrow> repoInfo option" where
  "withRepo owner repo = Some \<lparr>Owner = owner, Repo = repo\<rparr>"

definition repoFromContext :: "repoInfo option \<Rightarrow> (string \<times> string) option" where
  "repoFromContext ctx = (case ctx of None \<Rightarrow> None | Some ri \<Rightarrow> Some (Owner ri, Repo ri))"

definition RoundTrip :: "env \<Rightarrow> request \<Rightarrow> world \<Rightarrow> (error + response) \<times> world" where
  "RoundTrip E req w =
     (case repoFromContext (req_ctx req) of
        None \<Rightarrow> (Inl (Errorf ''no repo context set on request''), w)
      | Some (owner, repo) \<Rightarrow>
          (case TokenForRepo E owner repo w of
             (Inl err, w1) \<Rightarrow> (Inl (wrap ''error getting token: '' err), w1)
           | (Inr token, w1) \<Rightarrow>
               (let req' = Header_Set ''Authorization'' (''token '' @ token) req
                in (round_trip E (trace w1) req', call (DefaultRoundTrip req') w1))))"

text \<open>
  \<open>p.client.Do(req)\<close>: the transport of \<open>p.client\<close> is the \<open>GithubTripper\<close>. What
  \<open>http.Client\<close> adds around its transport (following redirects, decorating the error) is
  left out.
\<close>

definition client_Do :: "env \<Rightarrow> request \<Rightarrow> world \<Rightarrow> (error + response) \<times> world" where
  "client_Do E req w = RoundTrip E req w"

definition files ::
  "env \<Rightarrow> repoInfo option \<Rightarrow> string \<Rightarrow> string \<Rightarrow> string \<Rightarrow> world
     \<Rightarrow> (error + githubFileAsset list) \<times> world" where
  "files E ctx user repo tag w =
     (case url_error E ''https://api.github.com/repos/'' of
        Some err \<Rightarrow> (Inl (wrap ''error parsing base URL: '' err), w)
      | None \<Rightarrow>
          (case NewRequest E ctx ''GET''
                  (join_path E ''https://api.github.com/repos/''
                     [user, repo, ''releases'', ''tags'', tag]) of
             Inl err \<Rightarrow> (Inl (wrap ''error creating request to GitHub API: '' err), w)
           | Inr req \<Rightarrow>
               (case client_Do E req w of
                  (Inl err, w1) \<Rightarrow> (Inl (wrap ''error making request to GitHub API: '' err), w1)
                | (Inr resp, w1) \<Rightarrow>
                    if StatusCode resp \<noteq> 200
                    then (Inl (Errorf (''GitHub API returned non-200 status: '' @ Status resp)), w1)
                    else (case decode_assets E (Body resp) of
                            Inl err \<Rightarrow> (Inl (wrap ''error decoding GitHub API response: '' err), w1)
                          | Inr assets \<Rightarrow> (Inr assets, w1)))))"

text \<open>\<open>file\<close> of the source (\<open>file\<close> is a reserved word here).\<close>

definition file_asset ::
  "env \<Rightarrow> repoInfo option \<Rightarrow> githubFileAsset \<Rightarrow> world \<Rightarrow> (error + string) \<times> world" where
  "file_asset E ctx asset w =
     (case NewRequest E ctx ''GET'' (URL asset) of
        Inl err \<Rightarrow> (Inl (wrap ''error creating request for asset: '' err), w)
      | Inr req0 \<Rightarrow>
          (case client_Do E (Header_Set ''Accept'' ''application/octet-stream'' req0) w of
             (Inl err, w1) \<Rightarrow> (Inl (wrap ''error making request for asset: '' err), w1)
           | (Inr resp, w1) \<Rightarrow>
               if StatusCode resp \<noteq> 200
               then (Inl (Errorf (''GitHub API returned non-200 status for asset: '' @ Status resp)),
                     w1)
               else (Inr (Body resp), w1)))"

text \<open>
  The \<open>http.ResponseWriter\<close> of a handler: the status passed to \<open>WriteHeader\<close>, if it was
  called, and the bytes written. The first \<open>Write\<close> calls \<open>WriteHeader(200)\<close> when no status
  was set; a handler that returns without either leaves the response with status 200 and
  no body.
\<close>

record ResponseWriter =
  wroteHeader :: "nat option"
  written :: string

definition WriteHeader :: "nat \<Rightarrow> ResponseWriter \<Rightarrow> ResponseWriter" where
  "WriteHeader c rw = (case wroteHeader rw of None \<Rightarrow> rw\<lparr>wroteHeader := Some c\<rparr> | Some _ \<Rightarrow> rw)"

definition Write :: "string \<Rightarrow> ResponseWriter \<Rightarrow> ResponseWriter" where
  "Write s rw = (let rw1 = WriteHeader 200 rw in rw1\<lparr>written := written rw1 @ s\<rparr>)"

definition http_Error :: "string \<Rightarrow> nat \<Rightarrow> ResponseWriter \<Rightarrow> ResponseWriter" where
  "http_Error e c rw = Write (e @ [CHR 0x0A]) (WriteHeader c rw)"

definition io_Copy :: "string \<Rightarrow> ResponseWriter \<Rightarrow> ResponseWriter" where
  "io_Copy d rw = (if d = [] then rw else Write d rw)"

definition status :: "ResponseWriter \<Rightarrow> nat" where
  "status rw = (case wroteHeader rw of None \<Rightarrow> 200 | Some c \<Rightarrow> c)"

definition PathValue :: "(string \<rightharpoonup> string) \<Rightarrow> string \<Rightarrow> string" where
  "PathValue vals name = (case vals name of None \<Rightarrow> [] | Some v \<Rightarrow> v)"

text \<open>
  The \<open>for ... range files\<close> loop of \<open>taggedHandler\<close>: \<open>Some\<close> when the handler returned
  from inside the loop, \<open>None\<close> when the loop ran to its end.
\<close>

fun taggedHandler_loop ::
  "env \<Rightarrow> repoInfo option \<Rightarrow> string \<Rightarrow> githubFileAsset list \<Rightarrow> ResponseWriter \<Rightarrow> world
     \<Rightarrow> (ResponseWriter \<times> world) option" where
  "taggedHandler_loop E ctx tag [] rw w = None"
| "taggedHandler_loop E ctx tag (f # fs) rw w =
     (if Name f = tag
      then (case file_asset E ctx f w of
              (Inl err, w1) \<Rightarrow>
                Some (http_Error (''Error fetching file content: '' @ msg err) 500 rw, w1)
            | (Inr d, w1) \<Rightarrow> Some (io_Copy d rw, w1))
      else taggedHandler_loop E ctx tag fs rw w)"

definition taggedHandler ::
  "env \<Rightarrow> (string \<rightharpoonup> string) \<Rightarrow> ResponseWriter \<Rightarrow> world \<Rightarrow> ResponseWriter \<times> world" where
  "taggedHandler E vals rw w =
     (let user = PathValue vals ''user'';
          repo = PathValue vals ''repo'';
          tag = PathValue vals ''tag'';
          ctx = withRepo user repo
      in case files E ctx user repo tag w of
           (Inl err, w1) \<Rightarrow>
             (http_Error (''Error fetching release files: '' @ msg err) 500 rw, w1)
         | (Inr fs, w1) \<Rightarrow>
             (case taggedHandler_loop E ctx tag fs rw w1 of
                Some r \<Rightarrow> r
              | None \<Rightarrow> (rw, w1)))"

text \<open>The loop of \<open>taggedFileHandler\<close>, in the same way.\<close>

fun taggedFileHandler_loop ::
  "env \<Rightarrow> repoInfo option \<Rightarrow> string \<Rightarrow> githubFileAsset list \<Rightarrow> ResponseWriter \<Rightarrow> world
     \<Rightarrow> (ResponseWriter \<times> world) option" where
  "taggedFileHandler_loop E ctx fname [] rw w = None"
| "taggedFileHandler_loop E ctx fname (f # fs) rw w =
     (if Name f = fname
      then (case file_asset E ctx f w of
              (Inl err, w1) \<Rightarrow>
                Some (http_Error (''Error fetching file content: '' @ msg err) 500 rw, w1)
            | (Inr d, w1) \<Rightarrow> Some (io_Copy d rw, w1))
      else taggedFileHandler_loop E ctx fname fs rw w)"

definition taggedFileHandler ::
  "env \<Rightarrow> (string \<rightharpoonup> string) \<Rightarrow> ResponseWriter \<Rightarrow> world \<Rightarrow> ResponseWriter \<times> world" where
  "taggedFileHandler E vals rw w =
     (let user = PathValue vals ''user'';
          repo = PathValue vals ''repo'';
          tag = PathValue vals ''tag'';
          fname = PathValue vals ''file'';
          ctx = withRepo user repo
      in case files E ctx user repo tag w of
           (Inl err, w1) \<Rightarrow>
             (http_Error (''Error fetching release files: '' @ msg err) 500 rw, w1)
         | (Inr fs, w1) \<Rightarrow>
             (case taggedFileHandler_loop E ctx fname fs rw w1 of
                Some r \<Rightarrow> r
              | None \<Rightarrow> (http_Error ''File not found in release assets'' 404 rw, w1)))"

section \<open>The route table\<close>

text \<open>
  \<open>NewGithubPrivateReleaseProxy\<close> registers three patterns on an \<open>http.ServeMux\<close>. The
  matching rules of the mux are those documented by \<open>net/http\<close>, for the pattern forms the
  table uses: an optional method followed by a space, then path segments, a segment
  \<open>{name}\<close> being a wildcard for one segment. A pattern without a method matches every
  method; a pattern with method \<open>GET\<close> matches \<open>HEAD\<close> too. A wildcard does not match the
  empty segment after a trailing slash. A request other than \<open>CONNECT\<close> whose path is not
  clean (an empty inner segment, \<open>.\<close> or \<open>..\<close>) is answered with a redirect to the clean
  path. Host patterns, \<open>{$}\<close>, \<open>{name...}\<close> and percent-escapes are not used by the table
  and are not modelled.
\<close>

datatype segment = Lit string | Wildcard string

record pattern =
  pat_method :: "string option"
  pat_path :: "segment list"

fun split_on :: "char \<Rightarrow> string \<Rightarrow> string list" where
  "split_on c [] = [[]]"
| "split_on c (x # xs) =
     (if x = c then [] # split_on c xs
      else (case split_on c xs of s # ss \<Rightarrow> (x # s) # ss | [] \<Rightarrow> [[x]]))"

definition parse_segment :: "string \<Rightarrow> segment" where
  "parse_segment s =
     (if 2 \<le> length s \<and> hd s = CHR ''{'' \<and> last s = CHR ''}''
      then Wildcard (butlast (tl s)) else Lit s)"

definition parsePattern :: "string \<Rightarrow> pattern" where
  "parsePattern s =
     (if CHR '' '' \<in> set s
      then \<lparr>pat_method = Some (takeWhile (\<lambda>c. c \<noteq> CHR '' '') s),
            pat_path = map parse_segment
                         (tl (split_on CHR ''/'' (tl (dropWhile (\<lambda>c. c \<noteq> CHR '' '') s))))\<rparr>
      else \<lparr>pat_method = None, pat_path = map parse_segment (tl (split_on CHR ''/'' s))\<rparr>)"

datatype handler = TaggedHandler | TaggedFileHandler

definition mux :: "(pattern \<times> handler) list" where
  "mux =
     [(parsePattern ''/{user}/{repo}/{tag}'', TaggedHandler),
      (parsePattern ''/{user}/{repo}/{tag}/{file}'', TaggedFileHandler),
      (parsePattern ''/{user}/{repo}/releases/download/{tag}/{file}'', TaggedFileHandler)]"

fun match_path :: "segment list \<Rightarrow> string list \<Rightarrow> (string \<times> string) list option" where
  "match_path [] [] = Some []"
| "match_path (Lit l # ps) (s # ss) = (if s = l then match_path ps ss else None)"
| "match_path (Wildcard n # ps) (s # ss) =
     (if s = [] \<and> ss = [] then None else map_option ((#) (n, s)) (match_path ps ss))"
| "match_path _ _ = None"

definition matches_method :: "string option \<Rightarrow> string \<Rightarrow> bool" where
  "matches_method pm m = (case pm of None \<Rightarrow> True | Some x \<Rightarrow> x = m \<or> (x = ''GET'' \<and> m = ''HEAD''))"

fun find_route ::
  "(pattern \<times> handler) list \<Rightarrow> string \<Rightarrow> string list \<Rightarrow> (handler \<times> (string \<times> string) list) option" where
  "find_route [] m segs = None"
| "find_route ((p, h) # rs) m segs =
     (case (if matches_method (pat_method p) m then match_path (pat_path p) segs else None) of
        Some vals \<Rightarrow> Some (h, vals)
      | None \<Rightarrow> find_route rs m segs)"

datatype outcome =
    Found handler "(string \<times> string) list"
  | NotFound
  | MethodNotAllowed
  | MovedPermanently

definition clean :: "string list \<Rightarrow> bool" where
  "clean segs = (''.'' \<notin> set segs \<and> ''..'' \<notin> set segs \<and> [] \<notin> set (butlast segs))"

text \<open>The path of an inbound request starts with a slash; its segments follow it.\<close>

definition segments :: "string \<Rightarrow> string list" where
  "segments path = tl (split_on CHR ''/'' path)"

definition findHandler :: "(pattern \<times> handler) list \<Rightarrow> string \<Rightarrow> string \<Rightarrow> outcome" where
  "findHandler table method path =
     (if method \<noteq> ''CONNECT'' \<and> \<not> clean (segments path) then MovedPermanently
      else (case find_route table method (segments path) of
              Some (h, vals) \<Rightarrow> Found h vals
            | None \<Rightarrow>
                if list_ex (\<lambda>(p, h). match_path (pat_path p) (segments path) \<noteq> None) table
                then MethodNotAllowed else NotFound))"

record inbound =
  in_method :: string
  in_path :: string

definition ServeHTTP ::
  "env \<Rightarrow> inbound \<Rightarrow> ResponseWriter \<Rightarrow> world \<Rightarrow> ResponseWriter \<times> world" where
  "ServeHTTP E r rw w =
     (case findHandler mux (in_method r) (in_path r) of
        Found TaggedHandler vals \<Rightarrow> taggedHandler E (map_of vals) rw w
      | Found TaggedFileHandler vals \<Rightarrow> taggedFileHandler E (map_of vals) rw w
      | NotFound \<Rightarrow> (http_Error ''404 page not found'' 404 rw, w)
      | MethodNotAllowed \<Rightarrow> (http_Error ''Method Not Allowed'' 405 rw, w)
      | MovedPermanently \<Rightarrow> (WriteHeader 301 rw, w))"

section \<open>Kinds of calls\<close>

text \<open>The calls that discover an installation, and the calls that go out to the network
  through the \<open>GithubTripper\<close>.\<close>

fun is_discovery :: "event \<Rightarrow> bool" where
  "is_discovery AppToken = True"
| "is_discovery (ClientDo _) = True"
| "is_discovery _ = False"

fun is_round_trip :: "event \<Rightarrow> bool" where
  "is_round_trip (DefaultRoundTrip _) = True"
| "is_round_trip _ = False"

section \<open>Concrete inputs\<close>

definition world0 :: world where
  "world0 = \<lparr>installationId = None, cache = Map.empty, allocated = 0, trace = [], stdout = []\<rparr>"

text \<open>
  A mock GitHub: the App is installed on \<open>acme\<close> as installation 42; the listing of
  installations is a parameter; the release \<open>v1.2.3\<close> of \<open>acme/widgets\<close> has the assets
  \<open>widgets.tar.gz\<close> and \<open>checksums.txt\<close>.
\<close>

definition acme :: ghInstallation where
  "acme = \<lparr>ID = 42, Login = ''acme'', RepositorySelection = ''all''\<rparr>"

definition other :: ghInstallation where
  "other = \<lparr>ID = 7, Login = ''other'', RepositorySelection = ''selected''\<rparr>"

definition assets0 :: "githubFileAsset list" where
  "assets0 =
     [\<lparr>Name = ''widgets.tar.gz'', ContentType = ''application/gzip'',
       BrowserDownloadURL = ''B1'', URL = ''U1''\<rparr>,
      \<lparr>Name = ''checksums.txt'', ContentType = ''text/plain'',
       BrowserDownloadURL = ''B2'', URL = ''U2''\<rparr>]"

fun join :: "string list \<Rightarrow> string" where
  "join [] = []"
| "join [s] = s"
| "join (s # ss) = s @ ''/'' @ join ss"

definition ok :: "string \<Rightarrow> response" where
  "ok body = \<lparr>StatusCode = 200, Status = ''200 OK'', Body = body\<rparr>"

definition not_found :: response where
  "not_found = \<lparr>StatusCode = 404, Status = ''404 Not Found'', Body = []\<rparr>"

definition github :: "ghInstallation list \<Rightarrow> env" where
  "github installs =
     \<lparr>new_app_source = (\<lambda>_ _. None),
      app_token = (\<lambda>_. Inr ''jwt''),
      client_do = (\<lambda>_ req.
        if req_url req = ''https://api.github.com/app/installations'' then Inr (ok ''[installations]'')
        else if req_url req = ''https://api.github.com/repos/acme/widgets/installation''
        then Inr (ok ''{acme}'')
        else Inr not_found),
      source_token = (\<lambda>_ ts. Inr (''ghs'' @ Itoa (installation ts))),
      round_trip = (\<lambda>_ req.
        if req_url req = ''https://api.github.com/repos/acme/widgets/releases/tags/v1.2.3''
        then Inr (ok ''{release}'')
        else if req_url req = ''U2'' then Inr (ok ''checksum bytes'')
        else Inr not_found),
      url_error = (\<lambda>_. None),
      join_path = (\<lambda>base elems. base @ join elems),
      decode_installation = (\<lambda>body.
        if body = ''{acme}'' then Inr acme else Inl (Errorf ''unexpected end of JSON input'')),
      decode_installations = (\<lambda>_. Inr installs),
      decode_assets = (\<lambda>body.
        if body = ''{release}'' then Inr assets0 else Inl (Errorf ''unexpected end of JSON input''))\<rparr>"

definition config0 :: AppConfig where
  "config0 = \<lparr>PrivateKey = ''key.pem'', AppId = Some 123456, ClientId = None,
              InstallationId = None, ListenAddress = ''localhost:9443''\<rparr>"

text \<open>The mock GitHub when no installation token can be minted.\<close>

definition github_no_token :: env where
  "github_no_token = (github [acme])\<lparr>source_token := (\<lambda>_ _. Inl (Errorf ''mint failed''))\<rparr>"

definition world_fixed :: world where
  "world_fixed = world0\<lparr>installationId := Some 42\<rparr>"

text \<open>The mock GitHub when the first request of the process fails and later ones succeed.\<close>

definition github_flaky :: env where
  "github_flaky =
     (github [acme])\<lparr>client_do := (\<lambda>tr req. if length tr < 2 then Inr not_found else Inr (ok ''{acme}''))\<rparr>"

text \<open>The request \<open>lookupRepoInstallation\<close> sends for \<open>owner/repo\<close> with the mock's app token.\<close>

definition lookup_request :: "string \<Rightarrow> string \<Rightarrow> request" where
  "lookup_request owner repo =
     \<lparr>req_method = ''GET'',
      req_url = ''https://api.github.com/repos/'' @ owner @ ''/'' @ repo @ ''/installation'',
      req_header = [''Authorization'' \<mapsto> ''Bearer jwt'',
                    ''Accept'' \<mapsto> ''application/vnd.github+json''],
      req_ctx = None\<rparr>"

text \<open>The state after the owner \<open>acme\<close> was discovered from \<open>world0\<close>, and after a failed
  call for another owner.\<close>

definition world1 :: world where
  "world1 =
     world0\<lparr>cache := [''acme'' \<mapsto> InstallationTokenSource 0 42], allocated := 1,
            trace := [AppToken, ClientDo (lookup_request ''acme'' ''widgets''),
                      SourceToken (InstallationTokenSource 0 42)],
            stdout := [''Discovered installation 42 (acme) for acme/widgets'' @ [CHR 0x0A]]\<rparr>"

definition world2 :: world where
  "world2 = world1\<lparr>trace := trace world1 @ [AppToken, ClientDo (lookup_request ''nobody'' ''widgets'')]\<rparr>"

text \<open>A request for the release \<open>v1.2.3\<close> of \<open>acme/widgets\<close>, with a given context.\<close>

definition release_request :: "repoInfo option \<Rightarrow> request" where
  "release_request ctx =
     \<lparr>req_method = ''GET'',
      req_url = ''https://api.github.com/repos/acme/widgets/releases/tags/v1.2.3'',
      req_header = Map.empty, req_ctx = ctx\<rparr>"

text \<open>A fresh response writer.\<close>

definition rw0 :: ResponseWriter where
  "rw0 = \<lparr>wroteHeader = None, written = []\<rparr>"

text \<open>
  A release whose asset list holds, before \<open>checksums.txt\<close>, a name that differs from it
  only in case and a name that is a prefix of it, and after it a second asset of the
  same name.
\<close>

definition assets1 :: "githubFileAsset list" where
  "assets1 =
     [\<lparr>Name = ''Checksums.txt'', ContentType = ''text/plain'',
       BrowserDownloadURL = ''B3'', URL = ''U3''\<rparr>,
      \<lparr>Name = ''checksums'', ContentType = ''text/plain'',
       BrowserDownloadURL = ''B4'', URL = ''U4''\<rparr>,
      \<lparr>Name = ''checksums.txt'', ContentType = ''text/plain'',
       BrowserDownloadURL = ''B2'', URL = ''U2''\<rparr>,
      \<lparr>Name = ''checksums.txt'', ContentType = ''text/plain'',
       BrowserDownloadURL = ''B5'', URL = ''U5''\<rparr>]"

definition github_names :: env where
  "github_names = (github [acme])\<lparr>decode_assets := (\<lambda>_. Inr assets1)\<rparr>"

text \<open>The request for the bytes of an asset of \<open>acme/widgets\<close>, and the state after the
  release request of the first inbound request.\<close>

definition asset_request :: "string \<Rightarrow> request" where
  "asset_request url =
     \<lparr>req_method = ''GET'', req_url = url,
      req_header = [''Accept'' \<mapsto> ''application/octet-stream''],
      req_ctx = withRepo ''acme'' ''widgets''\<rparr>"

definition world_release :: world where
  "world_release =
     call (DefaultRoundTrip (Header_Set ''Authorization'' ''token ghs42''
                               (release_request (withRepo ''acme'' ''widgets'')))) world1"

section \<open>Properties: the token cache\<close>

lemma getOrSetSource_hit: "cache w owner = Some ts \<Longrightarrow> getOrSetSource owner factory w = (ts, w)"
  by (simp add: getOrSetSource_def)

lemma getOrSetSource_miss:
  "cache w owner = None \<Longrightarrow>
   getOrSetSource owner factory w =
     (fst (factory w), (snd (factory w))\<lparr>cache := (cache (snd (factory w)))(owner \<mapsto> fst (factory w))\<rparr>)"
  by (simp add: getOrSetSource_def split: prod.splits)

lemma getOrSetSource_new_cases:
  assumes "getOrSetSource owner (NewInstallationTokenSource i) w = (ts, w1)"
  shows "(cache w owner = Some ts \<and> w1 = w) \<or>
         (cache w owner = None \<and> ts = InstallationTokenSource (allocated w) i \<and>
          w1 = w\<lparr>allocated := Suc (allocated w), cache := (cache w)(owner \<mapsto> ts)\<rparr>)"
  using assms by (auto simp: getOrSetSource_def NewInstallationTokenSource_def split: option.splits)

lemma getOrSetSources_cache_mono:
  "getOrSetSources cs w = (tss, w') \<Longrightarrow> cache w k = Some ts \<Longrightarrow> cache w' k = Some ts"
proof (induction cs arbitrary: w tss w')
  case Nil
  then show ?case by simp
next
  case (Cons c cs)
  obtain owner i where c: "c = (owner, i)" by (cases c)
  obtain t w1 where s: "getOrSetSource owner (NewInstallationTokenSource i) w = (t, w1)"
    by (cases "getOrSetSource owner (NewInstallationTokenSource i) w")
  obtain tss' where r: "getOrSetSources cs w1 = (tss', w')"
    using Cons.prems(1) c s by (auto split: prod.splits)
  have "cache w1 k = Some ts"
    using getOrSetSource_new_cases [OF s] Cons.prems(2) by auto
  then show ?case using Cons.IH [OF r] by simp
qed

lemma getOrSetSources_allocated:
  "getOrSetSources cs w = (tss, w') \<Longrightarrow>
   allocated w' = allocated w + card (fst ` set cs - dom (cache w))"
proof (induction cs arbitrary: w tss w')
  case Nil
  then show ?case by simp
next
  case (Cons c cs)
  obtain owner i where c: "c = (owner, i)" by (cases c)
  obtain t w1 where s: "getOrSetSource owner (NewInstallationTokenSource i) w = (t, w1)"
    by (cases "getOrSetSource owner (NewInstallationTokenSource i) w")
  obtain tss' where r: "getOrSetSources cs w1 = (tss', w')"
    using Cons.prems(1) c s by (auto split: prod.splits)
  note ih = Cons.IH [OF r]
  from getOrSetSource_new_cases [OF s] show ?case
  proof
    assume h: "cache w owner = Some t \<and> w1 = w"
    then have "owner \<in> dom (cache w)" by auto
    then have "fst ` set (c # cs) - dom (cache w) = fst ` set cs - dom (cache w)"
      using c by auto
    then show ?thesis using ih h by simp
  next
    assume h: "cache w owner = None \<and> t = InstallationTokenSource (allocated w) i \<and>
          w1 = w\<lparr>allocated := Suc (allocated w), cache := (cache w)(owner \<mapsto> t)\<rparr>"
    then have d: "dom (cache w1) = insert owner (dom (cache w))" and n: "owner \<notin> dom (cache w)"
      and a: "allocated w1 = Suc (allocated w)"
      by auto
    have "fst ` set (c # cs) - dom (cache w) = insert owner (fst ` set cs - dom (cache w1))"
      using c d n by auto
    moreover have "owner \<notin> fst ` set cs - dom (cache w1)" using d by simp
    ultimately have "card (fst ` set (c # cs) - dom (cache w)) = Suc (card (fst ` set cs - dom (cache w1)))"
      by simp
    then show ?thesis using ih a by simp
  qed
qed

lemma getOrSetSources_results:
  "getOrSetSources cs w = (tss, w') \<Longrightarrow> i < length cs \<Longrightarrow> cache w' (fst (cs ! i)) = Some (tss ! i)"
proof (induction cs arbitrary: w tss w' i)
  case Nil
  then show ?case by simp
next
  case (Cons c cs)
  obtain owner j where c: "c = (owner, j)" by (cases c)
  obtain t w1 where s: "getOrSetSource owner (NewInstallationTokenSource j) w = (t, w1)"
    by (cases "getOrSetSource owner (NewInstallationTokenSource j) w")
  obtain tss' where r: "getOrSetSources cs w1 = (tss', w')" and t: "tss = t # tss'"
    using Cons.prems(1) c s by (auto split: prod.splits)
  show ?case
  proof (cases i)
    case 0
    have "cache w1 owner = Some t" using getOrSetSource_new_cases [OF s] by auto
    then have "cache w' owner = Some t" by (rule getOrSetSources_cache_mono [OF r])
    then show ?thesis using 0 c t by simp
  next
    case (Suc n)
    then have "n < length cs" using Cons.prems(2) by simp
    from Cons.IH [OF r this] show ?thesis using Suc t by simp
  qed
qed

text \<open>
  Claim C1. A call of \<open>getOrSetSource\<close> that finds an entry for the owner returns it and
  leaves the whole state as it was, whatever the factory is, so the factory did not run.
  A call that finds none runs the factory once on the current state, stores the source it
  made under the owner and returns it. Over any run of calls no entry is removed or
  replaced, the number of sources created is the number of distinct owners that had no
  entry at the start, each call returns what the cache holds for its owner at the end, and
  two calls for the same owner return the same source.
\<close>

theorem getOrSetSource_at_most_one_source:
  "(cache w owner = Some ts \<longrightarrow> getOrSetSource owner factory w = (ts, w)) \<and>
   (cache w owner = None \<longrightarrow>
      getOrSetSource owner factory w =
        (fst (factory w),
         (snd (factory w))\<lparr>cache := (cache (snd (factory w)))(owner \<mapsto> fst (factory w))\<rparr>)) \<and>
   (getOrSetSources cs w = (tss, w') \<longrightarrow>
      (\<forall>k t. cache w k = Some t \<longrightarrow> cache w' k = Some t) \<and>
      allocated w' = allocated w + card (fst ` set cs - dom (cache w)) \<and>
      (\<forall>i<length cs. cache w' (fst (cs ! i)) = Some (tss ! i)) \<and>
      (\<forall>i<length cs. \<forall>j<length cs. fst (cs ! i) = fst (cs ! j) \<longrightarrow> tss ! i = tss ! j))"
proof (intro conjI impI)
  assume "cache w owner = Some ts"
  then show "getOrSetSource owner factory w = (ts, w)" by (rule getOrSetSource_hit)
next
  assume "cache w owner = None"
  then show "getOrSetSource owner factory w =
        (fst (factory w),
         (snd (factory w))\<lparr>cache := (cache (snd (factory w)))(owner \<mapsto> fst (factory w))\<rparr>)"
    by (rule getOrSetSource_miss)
next
  assume r: "getOrSetSources cs w = (tss, w')"
  show "\<forall>k t. cache w k = Some t \<longrightarrow> cache w' k = Some t"
    using getOrSetSources_cache_mono [OF r] by blast
  show "allocated w' = allocated w + card (fst ` set cs - dom (cache w))"
    by (rule getOrSetSources_allocated [OF r])
  show "\<forall>i<length cs. cache w' (fst (cs ! i)) = Some (tss ! i)"
    using getOrSetSources_results [OF r] by blast
  show "\<forall>i<length cs. \<forall>j<length cs. fst (cs ! i) = fst (cs ! j) \<longrightarrow> tss ! i = tss ! j"
  proof (intro allI impI)
    fix i j
    assume i: "i < length cs" and j: "j < length cs" and e: "fst (cs ! i) = fst (cs ! j)"
    have "Some (tss ! i) = cache w' (fst (cs ! i))" using getOrSetSources_results [OF r i] by simp
    also have "\<dots> = Some (tss ! j)" using getOrSetSources_results [OF r j] e by simp
    finally show "tss ! i = tss ! j" by simp
  qed
qed

theorem getOrSetSource_at_most_one_source_witness:
  "getOrSetSource ''acme'' (NewInstallationTokenSource 42) world0 =
     (InstallationTokenSource 0 42,
      world0\<lparr>allocated := 1, cache := [''acme'' \<mapsto> InstallationTokenSource 0 42]\<rparr>) \<and>
   getOrSetSource ''acme'' (NewInstallationTokenSource 99)
      (world0\<lparr>allocated := 1, cache := [''acme'' \<mapsto> InstallationTokenSource 0 42]\<rparr>) =
     (InstallationTokenSource 0 42,
      world0\<lparr>allocated := 1, cache := [''acme'' \<mapsto> InstallationTokenSource 0 42]\<rparr>) \<and>
   getOrSetSources [(''acme'', 42), (''other'', 7), (''acme'', 99)] world0 =
     ([InstallationTokenSource 0 42, InstallationTokenSource 1 7, InstallationTokenSource 0 42],
      world0\<lparr>allocated := 2,
             cache := [''acme'' \<mapsto> InstallationTokenSource 0 42,
                       ''other'' \<mapsto> InstallationTokenSource 1 7]\<rparr>) \<and>
   card (fst ` set [(''acme'', 42::int), (''other'', 7), (''acme'', 99)] - dom (cache world0)) = 2"
proof -
  let ?w1 = "world0\<lparr>allocated := 1, cache := [''acme'' \<mapsto> InstallationTokenSource 0 42]\<rparr>"
  let ?cs = "[(''acme'', 42::int), (''other'', 7), (''acme'', 99)]"
  let ?w3 = "world0\<lparr>allocated := 2,
                cache := [''acme'' \<mapsto> InstallationTokenSource 0 42,
                          ''other'' \<mapsto> InstallationTokenSource 1 7]\<rparr>"
  have miss: "cache world0 ''acme'' = None" by (simp add: world0_def)
  have hit: "cache ?w1 ''acme'' = Some (InstallationTokenSource 0 42)" by simp
  have run: "getOrSetSources ?cs world0 =
        ([InstallationTokenSource 0 42, InstallationTokenSource 1 7, InstallationTokenSource 0 42], ?w3)"
    by (simp add: world0_def getOrSetSource_def NewInstallationTokenSource_def)
  note a = getOrSetSource_at_most_one_source
      [of world0 "''acme''" _ "NewInstallationTokenSource 42" ?cs _ ?w3]
  note b = getOrSetSource_at_most_one_source
      [of ?w1 "''acme''" "InstallationTokenSource 0 42" "NewInstallationTokenSource 99" "[]" "[]" ?w1]
  have 1: "getOrSetSource ''acme'' (NewInstallationTokenSource 42) world0 =
     (InstallationTokenSource 0 42, ?w1)"
    using a miss by (simp add: NewInstallationTokenSource_def world0_def)
  have 2: "getOrSetSource ''acme'' (NewInstallationTokenSource 99) ?w1 = (InstallationTokenSource 0 42, ?w1)"
    using b hit by blast
  have 3: "allocated ?w3 = allocated world0 + card (fst ` set ?cs - dom (cache world0))"
    using a run by blast
  have 4: "card (fst ` set ?cs - dom (cache world0)) = 2"
    using 3 by (simp add: world0_def)
  show ?thesis using 1 2 run 4 by blast
qed

section \<open>Properties: the installation chosen at startup\<close>

lemma call_fields [simp]:
  "installationId (call e w) = installationId w" "cache (call e w) = cache w"
  "allocated (call e w) = allocated w" "trace (call e w) = trace w @ [e]"
  "stdout (call e w) = stdout w"
  by (simp_all add: call_def)

lemma Printf_fields [simp]:
  "installationId (Printf s w) = installationId w" "cache (Printf s w) = cache w"
  "allocated (Printf s w) = allocated w" "trace (Printf s w) = trace w"
  "stdout (Printf s w) = stdout w @ [s]"
  by (simp_all add: Printf_def)

lemma print_installations_fields [simp]:
  "installationId (print_installations insts w) = installationId w"
  "cache (print_installations insts w) = cache w"
  "allocated (print_installations insts w) = allocated w"
  "trace (print_installations insts w) = trace w"
  "stdout (print_installations insts w) = stdout w @ map installation_line insts"
  by (induction insts arbitrary: w) simp_all

lemma discoverInstallations_fields:
  assumes "discoverInstallations E w = (r, w1)"
  shows "installationId w1 = installationId w" "cache w1 = cache w" "allocated w1 = allocated w"
    "stdout w1 = stdout w"
  using assms
  by (auto simp: discoverInstallations_def Let_def split: sum.splits if_splits)

text \<open>
  Claim C3. When the application token source could be made, no \<open>installationId\<close> is
  configured and the listing of installations returns more than one, \<open>buildTokenSource\<close>
  returns an error and creates no token source; before that it prints a heading and one
  line per installation, in the order of the listing. When the listing is empty it
  returns the error "no installations found" and creates no token source either.
\<close>

theorem buildTokenSource_refuses_to_guess:
  assumes "appTokenSource E config privateKey = None"
    and "InstallationId config = None"
    and "discoverInstallations E w = (Inr installations, w1)"
  shows "(1 < length installations \<longrightarrow>
            (\<exists>w'. buildTokenSource E config privateKey w =
                    (Inl (Errorf ''multiple installations found; set installationId in config to select one''), w') \<and>
                  allocated w' = allocated w \<and>
                  stdout w' = stdout w @ (''Multiple installations found:'' @ [CHR 0x0A])
                                # map installation_line installations)) \<and>
         (length installations = 0 \<longrightarrow>
            buildTokenSource E config privateKey w =
              (Inl (Errorf ''no installations found; install the GitHub App on an account first''), w1) \<and>
            allocated w1 = allocated w)"
proof (intro conjI impI)
  assume "1 < length installations"
  then obtain a b rest where l: "installations = a # b # rest"
    by (cases installations; cases "tl installations") auto
  show "\<exists>w'. buildTokenSource E config privateKey w =
                    (Inl (Errorf ''multiple installations found; set installationId in config to select one''), w') \<and>
                  allocated w' = allocated w \<and>
                  stdout w' = stdout w @ (''Multiple installations found:'' @ [CHR 0x0A])
                                # map installation_line installations"
    using assms discoverInstallations_fields [OF assms(3)]
    by (simp add: buildTokenSource_def l)
next
  assume "length installations = 0"
  then show "buildTokenSource E config privateKey w =
              (Inl (Errorf ''no installations found; install the GitHub App on an account first''), w1)"
    using assms by (simp add: buildTokenSource_def)
next
  show "allocated w1 = allocated w" by (rule discoverInstallations_fields [OF assms(3)])
qed

text \<open>
  Claim C10. When the application token source could be made, no \<open>installationId\<close> is
  configured and the listing of installations returns exactly one installation,
  \<open>buildTokenSource\<close> succeeds with a new installation token source built from the id of
  that installation.
\<close>

theorem buildTokenSource_single_installation:
  assumes "appTokenSource E config privateKey = None"
    and "InstallationId config = None"
    and "discoverInstallations E w = (Inr [inst], w1)"
  shows "buildTokenSource E config privateKey w =
           (Inr (InstallationTokenSource (allocated w) (ID inst)),
            (Printf (''Using installation '' @ Itoa (ID inst) @ '' ('' @ Login inst @ '')'' @ [CHR 0x0A]) w1)
              \<lparr>allocated := Suc (allocated w)\<rparr>)"
  using assms discoverInstallations_fields [OF assms(3)]
  by (simp add: buildTokenSource_def NewInstallationTokenSource_def)

lemma discover_github:
  "discoverInstallations (github insts) world0 =
     (Inr insts,
      world0\<lparr>trace :=
        [AppToken,
         ClientDo \<lparr>req_method = ''GET'', req_url = ''https://api.github.com/app/installations'',
                   req_header = [''Authorization'' \<mapsto> ''Bearer jwt'',
                                 ''Accept'' \<mapsto> ''application/vnd.github+json''],
                   req_ctx = None\<rparr>]\<rparr>)"
  by (simp add: discoverInstallations_def github_def world0_def NewRequest_def Header_Set_def
      call_def ok_def Let_def)

lemma app_github: "appTokenSource (github insts) config0 ''key'' = None"
  by (simp add: appTokenSource_def github_def config0_def)

lemma config0_no_installation: "InstallationId config0 = None"
  by (simp add: config0_def)

theorem buildTokenSource_refuses_to_guess_witness:
  "fst (buildTokenSource (github [acme, other]) config0 ''key'' world0) =
     Inl (Errorf ''multiple installations found; set installationId in config to select one'') \<and>
   allocated (snd (buildTokenSource (github [acme, other]) config0 ''key'' world0)) = 0 \<and>
   stdout (snd (buildTokenSource (github [acme, other]) config0 ''key'' world0)) =
     [''Multiple installations found:'' @ [CHR 0x0A],
      ''  - acme (installation ID: 42)'' @ [CHR 0x0A],
      ''  - other (installation ID: 7)'' @ [CHR 0x0A]] \<and>
   fst (buildTokenSource (github []) config0 ''key'' world0) =
     Inl (Errorf ''no installations found; install the GitHub App on an account first'')"
proof -
  note two = buildTokenSource_refuses_to_guess
      [OF app_github config0_no_installation discover_github, of "[acme, other]"]
  note none = buildTokenSource_refuses_to_guess
      [OF app_github config0_no_installation discover_github, of "[]"]
  have l: "installation_line acme = ''  - acme (installation ID: 42)'' @ [CHR 0x0A]"
    "installation_line other = ''  - other (installation ID: 7)'' @ [CHR 0x0A]"
    by code_simp+
  have "1 < length [acme, other]" by simp
  with two obtain w' where
    "buildTokenSource (github [acme, other]) config0 ''key'' world0 =
       (Inl (Errorf ''multiple installations found; set installationId in config to select one''), w')"
    "allocated w' = allocated world0"
    "stdout w' = stdout world0 @ (''Multiple installations found:'' @ [CHR 0x0A])
                                # map installation_line [acme, other]"
    by blast
  moreover have "length ([] :: ghInstallation list) = 0" by simp
  with none have "buildTokenSource (github []) config0 ''key'' world0 =
     (Inl (Errorf ''no installations found; install the GitHub App on an account first''),
      world0\<lparr>trace :=
        [AppToken,
         ClientDo \<lparr>req_method = ''GET'', req_url = ''https://api.github.com/app/installations'',
                   req_header = [''Authorization'' \<mapsto> ''Bearer jwt'',
                                 ''Accept'' \<mapsto> ''application/vnd.github+json''],
                   req_ctx = None\<rparr>]\<rparr>)"
    by blast
  ultimately show ?thesis by (simp add: l world0_def)
qed

theorem buildTokenSource_single_installation_witness:
  "fst (buildTokenSource (github [acme]) config0 ''key'' world0) = Inr (InstallationTokenSource 0 42) \<and>
   allocated (snd (buildTokenSource (github [acme]) config0 ''key'' world0)) = 1"
  using buildTokenSource_single_installation
      [OF app_github config0_no_installation discover_github, of acme]
  by (simp add: world0_def acme_def)

text \<open>
  \<open>NewTokenManager\<close> lists the installations too, but only to print them: whatever the
  listing returns, it succeeds once the application token source could be made.
\<close>

lemma NewTokenManager_only_warns:
  "appTokenSource E config privateKey = None \<Longrightarrow> fst (NewTokenManager E config privateKey w) = None"
  by (simp add: NewTokenManager_def Let_def split: prod.splits sum.splits)

section \<open>Properties: token retrieval\<close>

lemma lookupRepoInstallation_frame:
  assumes "lookupRepoInstallation E owner repo w = (r, w1)"
  shows "installationId w1 = installationId w" "cache w1 = cache w" "allocated w1 = allocated w"
    "\<exists>evs. trace w1 = trace w @ AppToken # evs \<and> (\<forall>e\<in>set evs. is_discovery e)"
  using assms
  by (auto simp: lookupRepoInstallation_def Let_def split: sum.splits if_splits)

lemma getOrSetSource_new_frame:
  assumes "getOrSetSource owner (NewInstallationTokenSource i) w = (ts, w1)"
  shows "installationId w1 = installationId w" "trace w1 = trace w" "stdout w1 = stdout w"
    "cache w1 owner = Some ts" "cache w1 = (cache w)(owner \<mapsto> ts)"
    "cache w k = Some t \<Longrightarrow> cache w1 k = Some t"
  using getOrSetSource_new_cases [OF assms] by auto

lemma TokenForRepo_shape:
  assumes "TokenForRepo E owner repo w = (r, w1)"
  obtains (fixed) i ts wm where "installationId w = Some i"
      "getOrSetSource owner (NewInstallationTokenSource i) w = (ts, wm)"
      "r = source_token E (trace wm) ts" "w1 = call (SourceToken ts) wm"
  | (hit) ts where "installationId w = None" "cache w owner = Some ts"
      "r = source_token E (trace w) ts" "w1 = call (SourceToken ts) w"
  | (failed) err where "installationId w = None" "cache w owner = None"
      "lookupRepoInstallation E owner repo w = (Inl err, w1)"
      "r = Inl (wrap (''looking up installation for '' @ owner @ ''/'' @ repo @ '': '') err)"
  | (discovered) i wl ts wm where "installationId w = None" "cache w owner = None"
      "lookupRepoInstallation E owner repo w = (Inr i, wl)"
      "getOrSetSource owner (NewInstallationTokenSource i) wl = (ts, wm)"
      "r = source_token E (trace wm) ts" "w1 = call (SourceToken ts) wm"
proof (cases "installationId w")
  case (Some i)
  obtain ts wm where g: "getOrSetSource owner (NewInstallationTokenSource i) w = (ts, wm)"
    by (cases "getOrSetSource owner (NewInstallationTokenSource i) w")
  show ?thesis
    using assms Some g by (intro fixed [OF Some g]) (auto simp: TokenForRepo_def Token_def)
next
  case None
  show ?thesis
  proof (cases "cache w owner")
    case (Some ts)
    show ?thesis
      using assms None Some by (intro hit [OF None Some]) (auto simp: TokenForRepo_def Token_def)
  next
    case miss: None
    obtain lr wl where l: "lookupRepoInstallation E owner repo w = (lr, wl)"
      by (cases "lookupRepoInstallation E owner repo w")
    show ?thesis
    proof (cases lr)
      case (Inl err)
      have "w1 = wl" "r = Inl (wrap (''looking up installation for '' @ owner @ ''/'' @ repo @ '': '') err)"
        using assms None miss l Inl by (auto simp: TokenForRepo_def)
      then show ?thesis using failed [OF None miss] l Inl by simp
    next
      case (Inr i)
      obtain ts wm where g: "getOrSetSource owner (NewInstallationTokenSource i) wl = (ts, wm)"
        by (cases "getOrSetSource owner (NewInstallationTokenSource i) wl")
      have "r = source_token E (trace wm) ts" "w1 = call (SourceToken ts) wm"
        using assms None miss l Inr g by (auto simp: TokenForRepo_def Token_def)
      then show ?thesis using discovered [OF None miss _ g] l Inr by simp
    qed
  qed
qed

lemma discovery_not_round_trip:
  "\<forall>e\<in>set evs. is_discovery e \<Longrightarrow> filter is_round_trip evs = []"
  by (induction evs) (auto elim: is_discovery.elims)

lemma TokenForRepo_frame:
  assumes "TokenForRepo E owner repo w = (r, w1)"
  shows "installationId w1 = installationId w"
    and "cache w k = Some t \<Longrightarrow> cache w1 k = Some t"
    and "filter is_round_trip (trace w1) = filter is_round_trip (trace w)"
proof -
  show "installationId w1 = installationId w"
    using assms
  proof (cases rule: TokenForRepo_shape)
    case (fixed i ts wm)
    then show ?thesis using getOrSetSource_new_frame(1) [OF fixed(2)] by simp
  next
    case (hit ts)
    then show ?thesis by simp
  next
    case (failed err)
    then show ?thesis using lookupRepoInstallation_frame(1) [OF failed(3)] by simp
  next
    case (discovered i wl ts wm)
    then show ?thesis
      using lookupRepoInstallation_frame(1) [OF discovered(3)]
        getOrSetSource_new_frame(1) [OF discovered(4)] by simp
  qed
  show "cache w1 k = Some t" if c: "cache w k = Some t"
    using assms
  proof (cases rule: TokenForRepo_shape)
    case (fixed i ts wm)
    then show ?thesis using getOrSetSource_new_frame(6) [OF fixed(2) c] by simp
  next
    case (hit ts)
    then show ?thesis using c by simp
  next
    case (failed err)
    then show ?thesis using lookupRepoInstallation_frame(2) [OF failed(3)] c by simp
  next
    case (discovered i wl ts wm)
    have "cache wl k = Some t" using lookupRepoInstallation_frame(2) [OF discovered(3)] c by simp
    then show ?thesis using getOrSetSource_new_frame(6) [OF discovered(4)] discovered(6) by simp
  qed
  show "filter is_round_trip (trace w1) = filter is_round_trip (trace w)"
    using assms
  proof (cases rule: TokenForRepo_shape)
    case (fixed i ts wm)
    then show ?thesis using getOrSetSource_new_frame(2) [OF fixed(2)] by simp
  next
    case (hit ts)
    then show ?thesis by simp
  next
    case (failed err)
    then show ?thesis
      using lookupRepoInstallation_frame(4) [OF failed(3)] discovery_not_round_trip by auto
  next
    case (discovered i wl ts wm)
    then show ?thesis
      using lookupRepoInstallation_frame(4) [OF discovered(3)]
        getOrSetSource_new_frame(2) [OF discovered(4)] discovery_not_round_trip by auto
  qed
qed

lemma TokenForRepos_frame:
  "TokenForRepos E cs w = (rs, w1) \<Longrightarrow>
   installationId w1 = installationId w \<and> (cache w k = Some t \<longrightarrow> cache w1 k = Some t)"
proof (induction cs arbitrary: w rs)
  case Nil
  then show ?case by simp
next
  case (Cons c cs)
  obtain owner repo where c: "c = (owner, repo)" by (cases c)
  obtain r wm where s: "TokenForRepo E owner repo w = (r, wm)"
    by (cases "TokenForRepo E owner repo w")
  obtain rs' where t: "TokenForRepos E cs wm = (rs', w1)"
    using Cons.prems c s by (auto split: prod.splits)
  show ?case
    using Cons.IH [OF t] TokenForRepo_frame(1) [OF s] TokenForRepo_frame(2) [OF s, of k t]
    by auto
qed

lemma Itoa_42: "Itoa 42 = ''42''"
  by code_simp

lemmas run_defs = TokenForRepo_def lookupRepoInstallation_def getOrSetSource_def
  NewInstallationTokenSource_def Token_def call_def Printf_def NewRequest_def Header_Set_def
  Let_def

lemmas mock_defs = github_def ok_def not_found_def acme_def lookup_request_def Itoa_42

lemma TokenForRepo_acme:
  "TokenForRepo (github [acme]) ''acme'' ''widgets'' world0 = (Inr ''ghs42'', world1)"
  by (simp add: run_defs mock_defs world0_def world1_def)

lemma TokenForRepo_nobody:
  "TokenForRepos (github [acme]) [(''nobody'', ''widgets'')] world1 =
     ([Inl (Errorf (''looking up installation for nobody/widgets: GitHub API returned 404 Not Found for nobody/widgets installation lookup''))],
      world2)"
  by (simp add: run_defs mock_defs world0_def world1_def world2_def wrap_def)

section \<open>Properties: fixed installation\<close>

lemma TokenForRepo_fixed_step:
  assumes f: "installationId w = Some fixed"
    and inv: "\<forall>k t. cache w k = Some t \<longrightarrow> installation t = fixed"
    and run: "TokenForRepo E owner repo w = (r, w1)"
  shows "\<exists>ts. installation ts = fixed \<and> cache w1 owner = Some ts \<and>
              r = source_token E (trace w) ts \<and> trace w1 = trace w @ [SourceToken ts]"
    and "\<forall>k t. cache w1 k = Some t \<longrightarrow> installation t = fixed"
    and "dom (cache w1) = insert owner (dom (cache w))"
proof -
  from run obtain ts wm where g: "getOrSetSource owner (NewInstallationTokenSource fixed) w = (ts, wm)"
    and r: "r = source_token E (trace wm) ts" and w1: "w1 = call (SourceToken ts) wm"
    using f by (cases rule: TokenForRepo_shape) auto
  from getOrSetSource_new_cases [OF g]
  have ts: "installation ts = fixed" and c: "cache wm = (cache w)(owner \<mapsto> ts)"
    and t: "trace wm = trace w"
    using inv by (auto simp: fun_eq_iff)
  show "\<exists>ts. installation ts = fixed \<and> cache w1 owner = Some ts \<and>
              r = source_token E (trace w) ts \<and> trace w1 = trace w @ [SourceToken ts]"
    using ts c t r w1 by auto
  show "\<forall>k t. cache w1 k = Some t \<longrightarrow> installation t = fixed"
    using ts c w1 inv by auto
  show "dom (cache w1) = insert owner (dom (cache w))"
    using c w1 by auto
qed

lemma TokenForRepos_fixed_run:
  "installationId w = Some fixed \<Longrightarrow> \<forall>k t. cache w k = Some t \<longrightarrow> installation t = fixed \<Longrightarrow>
   TokenForRepos E cs w = (rs, w1) \<Longrightarrow>
   (\<forall>k t. cache w1 k = Some t \<longrightarrow> installation t = fixed) \<and>
   filter is_discovery (trace w1) = filter is_discovery (trace w)"
proof (induction cs arbitrary: w rs)
  case Nil
  then show ?case by simp
next
  case (Cons c cs)
  obtain owner repo where c: "c = (owner, repo)" by (cases c)
  obtain r wm where s: "TokenForRepo E owner repo w = (r, wm)"
    by (cases "TokenForRepo E owner repo w")
  obtain rs' where t: "TokenForRepos E cs wm = (rs', w1)"
    using Cons.prems(3) c s by (auto split: prod.splits)
  have i: "installationId wm = Some fixed"
    using TokenForRepo_frame(1) [OF s] Cons.prems(1) by simp
  note step = TokenForRepo_fixed_step [OF Cons.prems(1) Cons.prems(2) s]
  have "filter is_discovery (trace wm) = filter is_discovery (trace w)"
    using step(1) by auto
  then show ?case using Cons.IH [OF i step(2) t] by simp
qed

text \<open>
  Claim C5. Take a token manager with a fixed installation id and an empty cache, and let
  any calls of \<open>TokenForRepo\<close> have run. The next call, for any owner and repo, returns
  what \<open>Token()\<close> of the source cached under the owner returns, that source is built from
  the fixed installation id, the only call the process makes is that \<open>Token()\<close>, the cache
  gains at most the entry of the owner, and none of the calls so far has asked for the
  application token or looked an installation up.
\<close>

theorem TokenForRepo_fixed_installation:
  assumes "installationId w0 = Some fixed" and "cache w0 = Map.empty"
    and "TokenForRepos E cs w0 = (rs, w)"
  shows "(\<exists>ts. installation ts = fixed \<and>
               cache (snd (TokenForRepo E owner repo w)) owner = Some ts \<and>
               fst (TokenForRepo E owner repo w) = source_token E (trace w) ts \<and>
               trace (snd (TokenForRepo E owner repo w)) = trace w @ [SourceToken ts]) \<and>
         dom (cache (snd (TokenForRepo E owner repo w))) = insert owner (dom (cache w)) \<and>
         filter is_discovery (trace w) = filter is_discovery (trace w0)"
proof -
  have inv0: "\<forall>k t. cache w0 k = Some t \<longrightarrow> installation t = fixed"
    using assms(2) by simp
  note run = TokenForRepos_fixed_run [OF assms(1) inv0 assms(3)]
  have f: "installationId w = Some fixed"
    using TokenForRepos_frame [OF assms(3)] assms(1) by simp
  obtain r w1 where s: "TokenForRepo E owner repo w = (r, w1)"
    by (cases "TokenForRepo E owner repo w")
  have inv: "\<forall>k t. cache w k = Some t \<longrightarrow> installation t = fixed" using run by blast
  note step = TokenForRepo_fixed_step [OF f inv s]
  show ?thesis using step(1) step(3) run s by simp
qed

theorem TokenForRepo_fixed_installation_witness:
  "TokenForRepos (github [acme]) [(''acme'', ''widgets'')] world_fixed =
     ([Inr ''ghs42''],
      world_fixed\<lparr>cache := [''acme'' \<mapsto> InstallationTokenSource 0 42], allocated := 1,
                  trace := [SourceToken (InstallationTokenSource 0 42)]\<rparr>) \<and>
   fst (TokenForRepo (github [acme]) ''other'' ''gadgets''
          (world_fixed\<lparr>cache := [''acme'' \<mapsto> InstallationTokenSource 0 42], allocated := 1,
                       trace := [SourceToken (InstallationTokenSource 0 42)]\<rparr>)) = Inr ''ghs42'' \<and>
   trace (snd (TokenForRepo (github [acme]) ''other'' ''gadgets''
          (world_fixed\<lparr>cache := [''acme'' \<mapsto> InstallationTokenSource 0 42], allocated := 1,
                       trace := [SourceToken (InstallationTokenSource 0 42)]\<rparr>))) =
     [SourceToken (InstallationTokenSource 0 42), SourceToken (InstallationTokenSource 1 42)] \<and>
   dom (cache (snd (TokenForRepo (github [acme]) ''other'' ''gadgets''
          (world_fixed\<lparr>cache := [''acme'' \<mapsto> InstallationTokenSource 0 42], allocated := 1,
                       trace := [SourceToken (InstallationTokenSource 0 42)]\<rparr>)))) =
     {''acme'', ''other''}"
proof -
  let ?w = "world_fixed\<lparr>cache := [''acme'' \<mapsto> InstallationTokenSource 0 42], allocated := 1,
                       trace := [SourceToken (InstallationTokenSource 0 42)]\<rparr>"
  have 1: "installationId world_fixed = Some 42" and 2: "cache world_fixed = Map.empty"
    by (simp_all add: world_fixed_def world0_def)
  have 3: "TokenForRepos (github [acme]) [(''acme'', ''widgets'')] world_fixed = ([Inr ''ghs42''], ?w)"
    by (simp add: run_defs mock_defs world_fixed_def world0_def)
  from TokenForRepo_fixed_installation [OF 1 2 3, of "''other''" "''gadgets''"]
  obtain ts where i: "installation ts = 42"
    and c: "cache (snd (TokenForRepo (github [acme]) ''other'' ''gadgets'' ?w)) ''other'' = Some ts"
    and r: "fst (TokenForRepo (github [acme]) ''other'' ''gadgets'' ?w) =
              source_token (github [acme]) (trace ?w) ts"
    and t: "trace (snd (TokenForRepo (github [acme]) ''other'' ''gadgets'' ?w)) =
              trace ?w @ [SourceToken ts]"
    and d: "dom (cache (snd (TokenForRepo (github [acme]) ''other'' ''gadgets'' ?w))) =
              insert ''other'' (dom (cache ?w))"
    by blast
  have "cache (snd (TokenForRepo (github [acme]) ''other'' ''gadgets'' ?w)) ''other'' =
          Some (InstallationTokenSource 1 42)"
    by (simp add: run_defs world_fixed_def world0_def)
  then have ts: "ts = InstallationTokenSource 1 42" using c by simp
  have "source_token (github [acme]) (trace ?w) ts = Inr ''ghs42''"
    using i by (simp add: mock_defs)
  then show ?thesis using 3 r t d ts by auto
qed

section \<open>Properties: discovery per owner\<close>

text \<open>
  Claim C6. Without a fixed installation id, let a call of \<open>TokenForRepo\<close> for an owner
  with no cache entry succeed. Then the installation lookup of that call returned an id,
  and a source built from it is cached under the owner. After any further calls, a call
  for the same owner and any repo returns what \<open>Token()\<close> of that same source returns, and
  that \<open>Token()\<close> is the only call it makes: no lookup happens again.
\<close>

theorem TokenForRepo_reuses_discovered_source:
  assumes "installationId w = None" and "cache w owner = None"
    and "TokenForRepo E owner r1 w = (Inr token, w1)"
    and "TokenForRepos E cs w1 = (rs, w2)"
  shows "\<exists>ts. fst (lookupRepoInstallation E owner r1 w) = Inr (installation ts) \<and>
              cache w1 owner = Some ts \<and>
              TokenForRepo E owner r2 w2 =
                (source_token E (trace w2) ts, call (SourceToken ts) w2)"
proof -
  from assms(3) obtain i wl ts wm where l: "lookupRepoInstallation E owner r1 w = (Inr i, wl)"
    and g: "getOrSetSource owner (NewInstallationTokenSource i) wl = (ts, wm)"
    and w1: "w1 = call (SourceToken ts) wm"
    using assms(1,2) by (cases rule: TokenForRepo_shape) auto
  have "cache wl owner = None"
    using lookupRepoInstallation_frame(2) [OF l] assms(2) by simp
  then have ts: "installation ts = i" and c: "cache wm owner = Some ts"
    using getOrSetSource_new_cases [OF g] by auto
  have c1: "cache w1 owner = Some ts" using c w1 by simp
  have i1: "installationId w1 = None" using TokenForRepo_frame(1) [OF assms(3)] assms(1) by simp
  have c2: "cache w2 owner = Some ts" and i2: "installationId w2 = None"
    using TokenForRepos_frame [OF assms(4), of owner ts] c1 i1 by auto
  have "TokenForRepo E owner r2 w2 = (source_token E (trace w2) ts, call (SourceToken ts) w2)"
    using c2 i2 by (simp add: TokenForRepo_def Token_def)
  then show ?thesis using l ts c1 by auto
qed

theorem TokenForRepo_reuses_discovered_source_witness:
  "fst (lookupRepoInstallation (github [acme]) ''acme'' ''widgets'' world0) = Inr 42 \<and>
   cache world1 ''acme'' = Some (InstallationTokenSource 0 42) \<and>
   TokenForRepo (github [acme]) ''acme'' ''other-widgets'' world2 =
     (Inr ''ghs42'', call (SourceToken (InstallationTokenSource 0 42)) world2)"
proof -
  have 1: "installationId world0 = None" and 2: "cache world0 ''acme'' = None"
    by (simp_all add: world0_def)
  from TokenForRepo_reuses_discovered_source
         [OF 1 2 TokenForRepo_acme TokenForRepo_nobody, of "''other-widgets''"]
  obtain ts where l: "fst (lookupRepoInstallation (github [acme]) ''acme'' ''widgets'' world0) = Inr (installation ts)"
    and c: "cache world1 ''acme'' = Some ts"
    and t: "TokenForRepo (github [acme]) ''acme'' ''other-widgets'' world2 =
              (source_token (github [acme]) (trace world2) ts, call (SourceToken ts) world2)"
    by blast
  have ts: "ts = InstallationTokenSource 0 42" using c by (simp add: world1_def)
  have "source_token (github [acme]) (trace world2) ts = Inr ''ghs42''"
    using ts by (simp add: mock_defs)
  then show ?thesis using l c t ts by simp
qed

section \<open>Properties: failures\<close>

text \<open>
  Claim C8 as stated fails: the lookup finds installation 42, the new source is cached
  under the owner, and then no token can be minted. \<open>TokenForRepo\<close> returns the error, yet
  the cache has gained the entry, and the next call for the owner asks that source for a
  token without looking the installation up again.
\<close>

theorem TokenForRepo_error_with_cache_entry:
  "fst (TokenForRepo github_no_token ''acme'' ''widgets'' world0) = Inl (Errorf ''mint failed'') \<and>
   cache world0 ''acme'' = None \<and>
   cache (snd (TokenForRepo github_no_token ''acme'' ''widgets'' world0)) ''acme'' =
     Some (InstallationTokenSource 0 42) \<and>
   TokenForRepo github_no_token ''acme'' ''widgets''
       (snd (TokenForRepo github_no_token ''acme'' ''widgets'' world0)) =
     (Inl (Errorf ''mint failed''),
      call (SourceToken (InstallationTokenSource 0 42))
        (snd (TokenForRepo github_no_token ''acme'' ''widgets'' world0)))"
  by (simp add: run_defs mock_defs github_no_token_def world0_def)

text \<open>
  Claim C8, as amended. Without a fixed installation id and with no cache entry for the
  owner, when the installation lookup returns an error, \<open>TokenForRepo\<close> returns that error
  wrapped, the cache and the number of token sources are as before, and the next call
  for the same owner starts with the lookup again; if that lookup returns an id, a new
  source built from it is cached under the owner.
\<close>

theorem TokenForRepo_lookup_error_keeps_cache:
  assumes "installationId w = None" and "cache w owner = None"
    and "lookupRepoInstallation E owner repo w = (Inl err, w1)"
  shows "TokenForRepo E owner repo w =
           (Inl (wrap (''looking up installation for '' @ owner @ ''/'' @ repo @ '': '') err), w1) \<and>
         cache w1 = cache w \<and> allocated w1 = allocated w \<and>
         (\<exists>evs. trace (snd (TokenForRepo E owner repo' w1)) = trace w1 @ AppToken # evs) \<and>
         (fst (lookupRepoInstallation E owner repo' w1) = Inr i \<longrightarrow>
            cache (snd (TokenForRepo E owner repo' w1)) owner =
              Some (InstallationTokenSource (allocated w) i))"
proof -
  note fr = lookupRepoInstallation_frame [OF assms(3)]
  have 1: "TokenForRepo E owner repo w =
           (Inl (wrap (''looking up installation for '' @ owner @ ''/'' @ repo @ '': '') err), w1)"
    using assms by (simp add: TokenForRepo_def)
  have i1: "installationId w1 = None" and c1: "cache w1 owner = None"
    using fr assms by simp_all
  obtain lr wl where l: "lookupRepoInstallation E owner repo' w1 = (lr, wl)"
    by (cases "lookupRepoInstallation E owner repo' w1")
  note fl = lookupRepoInstallation_frame [OF l]
  from fl(4) obtain evs where evs: "trace wl = trace w1 @ AppToken # evs" by blast
  have 2: "\<exists>evs. trace (snd (TokenForRepo E owner repo' w1)) = trace w1 @ AppToken # evs"
  proof (cases lr)
    case (Inl e)
    then show ?thesis using i1 c1 l evs by (simp add: TokenForRepo_def)
  next
    case (Inr j)
    then show ?thesis
      using i1 c1 l evs fl(2)
      by (simp add: TokenForRepo_def Token_def getOrSetSource_def NewInstallationTokenSource_def)
  qed
  have 3: "cache (snd (TokenForRepo E owner repo' w1)) owner =
              Some (InstallationTokenSource (allocated w) i)"
    if "fst (lookupRepoInstallation E owner repo' w1) = Inr i"
    using that i1 c1 l fl(2) fl(3) fr(3)
    by (simp add: TokenForRepo_def Token_def getOrSetSource_def NewInstallationTokenSource_def)
  show ?thesis using 1 2 3 fr by blast
qed

theorem TokenForRepo_lookup_error_keeps_cache_witness:
  "lookupRepoInstallation github_flaky ''acme'' ''widgets'' world0 =
     (Inl (Errorf ''GitHub API returned 404 Not Found for acme/widgets installation lookup''),
      world0\<lparr>trace := [AppToken, ClientDo (lookup_request ''acme'' ''widgets'')]\<rparr>) \<and>
   TokenForRepo github_flaky ''acme'' ''widgets'' world0 =
     (Inl (Errorf ''looking up installation for acme/widgets: GitHub API returned 404 Not Found for acme/widgets installation lookup''),
      world0\<lparr>trace := [AppToken, ClientDo (lookup_request ''acme'' ''widgets'')]\<rparr>) \<and>
   fst (lookupRepoInstallation github_flaky ''acme'' ''gadgets''
          (world0\<lparr>trace := [AppToken, ClientDo (lookup_request ''acme'' ''widgets'')]\<rparr>)) = Inr 42 \<and>
   cache (snd (TokenForRepo github_flaky ''acme'' ''gadgets''
          (world0\<lparr>trace := [AppToken, ClientDo (lookup_request ''acme'' ''widgets'')]\<rparr>))) ''acme'' =
     Some (InstallationTokenSource 0 42)"
proof -
  let ?w1 = "world0\<lparr>trace := [AppToken, ClientDo (lookup_request ''acme'' ''widgets'')]\<rparr>"
  let ?err = "Errorf ''GitHub API returned 404 Not Found for acme/widgets installation lookup''"
  have 1: "installationId world0 = None" and 2: "cache world0 ''acme'' = None"
    by (simp_all add: world0_def)
  have 3: "lookupRepoInstallation github_flaky ''acme'' ''widgets'' world0 = (Inl ?err, ?w1)"
    by (simp add: run_defs mock_defs github_flaky_def world0_def)
  have 4: "fst (lookupRepoInstallation github_flaky ''acme'' ''gadgets'' ?w1) = Inr 42"
    by (simp add: run_defs mock_defs github_flaky_def world0_def)
  note t = TokenForRepo_lookup_error_keeps_cache [OF 1 2 3, of "''gadgets''" 42]
  have 5: "cache (snd (TokenForRepo github_flaky ''acme'' ''gadgets'' ?w1)) ''acme'' =
     Some (InstallationTokenSource (allocated world0) 42)"
    using t 4 by blast
  have 6: "TokenForRepo github_flaky ''acme'' ''widgets'' world0 =
     (Inl (wrap (''looking up installation for '' @ ''acme'' @ ''/'' @ ''widgets'' @ '': '') ?err), ?w1)"
    using t by blast
  show ?thesis using 3 4 5 6 by (simp add: wrap_def world0_def)
qed

section \<open>Properties: the authenticating transport\<close>

text \<open>
  Claim C4. \<open>RoundTrip\<close> on a request whose context holds no owner and repo returns an
  error and leaves the state as it was: nothing was sent. When the context holds them
  and \<open>TokenForRepo\<close> returns an error, \<open>RoundTrip\<close> returns that error wrapped, and no
  request has gone to the default transport. When \<open>TokenForRepo\<close> returns a token, the
  request goes to the default transport once, with the header \<open>Authorization\<close> set to
  \<open>token\<close> followed by the access token, and the reply of the transport is returned.
\<close>

theorem RoundTrip_authenticates_or_fails:
  "(req_ctx req = None \<longrightarrow>
      RoundTrip E req w = (Inl (Errorf ''no repo context set on request''), w)) \<and>
   (req_ctx req = Some ri \<and> TokenForRepo E (Owner ri) (Repo ri) w = (Inl err, w1) \<longrightarrow>
      RoundTrip E req w = (Inl (wrap ''error getting token: '' err), w1) \<and>
      filter is_round_trip (trace w1) = filter is_round_trip (trace w)) \<and>
   (req_ctx req = Some ri \<and> TokenForRepo E (Owner ri) (Repo ri) w = (Inr token, w1) \<longrightarrow>
      RoundTrip E req w =
        (round_trip E (trace w1) (Header_Set ''Authorization'' (''token '' @ token) req),
         call (DefaultRoundTrip (Header_Set ''Authorization'' (''token '' @ token) req)) w1) \<and>
      req_header (Header_Set ''Authorization'' (''token '' @ token) req) ''Authorization'' =
        Some (''token '' @ token) \<and>
      filter is_round_trip (trace w1) = filter is_round_trip (trace w))"
proof (intro conjI impI)
  assume "req_ctx req = None"
  then show "RoundTrip E req w = (Inl (Errorf ''no repo context set on request''), w)"
    by (simp add: RoundTrip_def repoFromContext_def)
next
  assume a: "req_ctx req = Some ri \<and> TokenForRepo E (Owner ri) (Repo ri) w = (Inl err, w1)"
  then show "RoundTrip E req w = (Inl (wrap ''error getting token: '' err), w1)"
    by (simp add: RoundTrip_def repoFromContext_def)
  show "filter is_round_trip (trace w1) = filter is_round_trip (trace w)"
    using a TokenForRepo_frame(3) by blast
next
  assume a: "req_ctx req = Some ri \<and> TokenForRepo E (Owner ri) (Repo ri) w = (Inr token, w1)"
  then show "RoundTrip E req w =
        (round_trip E (trace w1) (Header_Set ''Authorization'' (''token '' @ token) req),
         call (DefaultRoundTrip (Header_Set ''Authorization'' (''token '' @ token) req)) w1)"
    by (simp add: RoundTrip_def repoFromContext_def Let_def)
  show "req_header (Header_Set ''Authorization'' (''token '' @ token) req) ''Authorization'' =
        Some (''token '' @ token)"
    by (simp add: Header_Set_def)
  show "filter is_round_trip (trace w1) = filter is_round_trip (trace w)"
    using a TokenForRepo_frame(3) by blast
qed

theorem RoundTrip_authenticates_or_fails_witness:
  "RoundTrip (github [acme]) (release_request None) world0 =
     (Inl (Errorf ''no repo context set on request''), world0) \<and>
   fst (RoundTrip (github [acme]) (release_request (withRepo ''nobody'' ''widgets'')) world0) =
     Inl (Errorf ''error getting token: looking up installation for nobody/widgets: GitHub API returned 404 Not Found for nobody/widgets installation lookup'') \<and>
   filter is_round_trip
     (trace (snd (RoundTrip (github [acme]) (release_request (withRepo ''nobody'' ''widgets'')) world0))) = [] \<and>
   RoundTrip (github [acme]) (release_request (withRepo ''acme'' ''widgets'')) world0 =
     (Inr (ok ''{release}''),
      call (DefaultRoundTrip
              (Header_Set ''Authorization'' ''token ghs42''
                 (release_request (withRepo ''acme'' ''widgets'')))) world1)"
proof -
  let ?E = "github [acme]"
  let ?acme = "\<lparr>Owner = ''acme'', Repo = ''widgets''\<rparr>"
  let ?nobody = "\<lparr>Owner = ''nobody'', Repo = ''widgets''\<rparr>"
  let ?err = "Errorf ''looking up installation for nobody/widgets: GitHub API returned 404 Not Found for nobody/widgets installation lookup''"
  let ?w1 = "world0\<lparr>trace := [AppToken, ClientDo (lookup_request ''nobody'' ''widgets'')]\<rparr>"
  have 1: "req_ctx (release_request None) = None"
    by (simp add: release_request_def)
  have 2: "req_ctx (release_request (withRepo ''nobody'' ''widgets'')) = Some ?nobody \<and>
           TokenForRepo ?E (Owner ?nobody) (Repo ?nobody) world0 = (Inl ?err, ?w1)"
    by (simp add: release_request_def withRepo_def run_defs mock_defs world0_def wrap_def)
  have 3: "req_ctx (release_request (withRepo ''acme'' ''widgets'')) = Some ?acme \<and>
           TokenForRepo ?E (Owner ?acme) (Repo ?acme) world0 = (Inr ''ghs42'', world1)"
    using TokenForRepo_acme by (simp add: release_request_def withRepo_def)
  have a: "RoundTrip ?E (release_request None) world0 =
     (Inl (Errorf ''no repo context set on request''), world0)"
    using RoundTrip_authenticates_or_fails [where req = "release_request None" and E = ?E and w = world0] 1
    by blast
  have b: "RoundTrip ?E (release_request (withRepo ''nobody'' ''widgets'')) world0 =
             (Inl (wrap ''error getting token: '' ?err), ?w1) \<and>
           filter is_round_trip (trace ?w1) = filter is_round_trip (trace world0)"
    using RoundTrip_authenticates_or_fails
            [where req = "release_request (withRepo ''nobody'' ''widgets'')" and ri = ?nobody
               and E = ?E and w = world0 and err = ?err and ?w1.0 = ?w1] 2
    by blast
  have c: "RoundTrip ?E (release_request (withRepo ''acme'' ''widgets'')) world0 =
        (round_trip ?E (trace world1)
           (Header_Set ''Authorization'' (''token '' @ ''ghs42'') (release_request (withRepo ''acme'' ''widgets''))),
         call (DefaultRoundTrip
           (Header_Set ''Authorization'' (''token '' @ ''ghs42'') (release_request (withRepo ''acme'' ''widgets'')))) world1)"
    using RoundTrip_authenticates_or_fails
            [where req = "release_request (withRepo ''acme'' ''widgets'')" and ri = ?acme
               and E = ?E and w = world0 and token = "''ghs42''" and ?w1.0 = world1] 3
    by blast
  have d: "round_trip ?E (trace world1)
           (Header_Set ''Authorization'' (''token '' @ ''ghs42'') (release_request (withRepo ''acme'' ''widgets''))) =
           Inr (ok ''{release}'')"
    by (simp add: github_def Header_Set_def release_request_def)
  show ?thesis using a b c d by (simp add: wrap_def world0_def)
qed

section \<open>Properties: the route table\<close>

lemma mux_table:
  "mux =
     [(\<lparr>pat_method = None, pat_path = [Wildcard ''user'', Wildcard ''repo'', Wildcard ''tag'']\<rparr>,
       TaggedHandler),
      (\<lparr>pat_method = None,
        pat_path = [Wildcard ''user'', Wildcard ''repo'', Wildcard ''tag'', Wildcard ''file'']\<rparr>,
       TaggedFileHandler),
      (\<lparr>pat_method = None,
        pat_path = [Wildcard ''user'', Wildcard ''repo'', Lit ''releases'', Lit ''download'',
                    Wildcard ''tag'', Wildcard ''file'']\<rparr>,
       TaggedFileHandler)]"
  by (simp add: mux_def parsePattern_def parse_segment_def)

lemma match_path_length: "match_path ps ss = Some vals \<Longrightarrow> length ss = length ps"
  by (induction ps ss arbitrary: vals rule: match_path.induct) (auto split: if_splits)

lemma match3:
  "match_path [Wildcard u, Wildcard r, Wildcard t] segs =
     (if length segs = 3 \<and> last segs \<noteq> [] then Some [(u, segs ! 0), (r, segs ! 1), (t, segs ! 2)]
      else None)"
proof (cases "length segs = 3")
  case True
  then obtain a b c where "segs = [a, b, c]"
    by (auto simp: length_Suc_conv numeral_3_eq_3)
  then show ?thesis by simp
next
  case False
  then have "match_path [Wildcard u, Wildcard r, Wildcard t] segs = None"
    using match_path_length [of "[Wildcard u, Wildcard r, Wildcard t]" segs] by (cases "match_path [Wildcard u, Wildcard r, Wildcard t] segs") auto
  then show ?thesis using False by simp
qed

lemma match4:
  "match_path [Wildcard u, Wildcard r, Wildcard t, Wildcard f] segs =
     (if length segs = 4 \<and> last segs \<noteq> []
      then Some [(u, segs ! 0), (r, segs ! 1), (t, segs ! 2), (f, segs ! 3)]
      else None)"
proof (cases "length segs = 4")
  case True
  then obtain a b c d where "segs = [a, b, c, d]"
    by (auto simp: length_Suc_conv eval_nat_numeral)
  then show ?thesis by simp
next
  case False
  then have "match_path [Wildcard u, Wildcard r, Wildcard t, Wildcard f] segs = None"
    using match_path_length [of "[Wildcard u, Wildcard r, Wildcard t, Wildcard f]" segs]
    by (cases "match_path [Wildcard u, Wildcard r, Wildcard t, Wildcard f] segs") auto
  then show ?thesis using False by simp
qed

lemma match6:
  "match_path [Wildcard u, Wildcard r, Lit x, Lit y, Wildcard t, Wildcard f] segs =
     (if length segs = 6 \<and> segs ! 2 = x \<and> segs ! 3 = y \<and> last segs \<noteq> []
      then Some [(u, segs ! 0), (r, segs ! 1), (t, segs ! 4), (f, segs ! 5)]
      else None)"
proof (cases "length segs = 6")
  case True
  then obtain a b c d e g where "segs = [a, b, c, d, e, g]"
    by (auto simp: length_Suc_conv eval_nat_numeral)
  then show ?thesis by simp
next
  case False
  then have "match_path [Wildcard u, Wildcard r, Lit x, Lit y, Wildcard t, Wildcard f] segs = None"
    using match_path_length [of "[Wildcard u, Wildcard r, Lit x, Lit y, Wildcard t, Wildcard f]" segs]
    by (cases "match_path [Wildcard u, Wildcard r, Lit x, Lit y, Wildcard t, Wildcard f] segs") auto
  then show ?thesis using False by simp
qed

text \<open>
  Claim C9 as stated fails: the patterns are registered without a method, so the mux
  hands a \<open>POST\<close> to the same handler as a \<open>GET\<close>, and the handlers never look at the method.
\<close>

theorem mux_accepts_POST:
  "findHandler mux ''POST'' ''/acme/widgets/v1.2.3'' =
     Found TaggedHandler [(''user'', ''acme''), (''repo'', ''widgets''), (''tag'', ''v1.2.3'')] \<and>
   ServeHTTP (github [acme]) \<lparr>in_method = ''POST'', in_path = ''/acme/widgets/v1.2.3''\<rparr> rw0 world0 =
   ServeHTTP (github [acme]) \<lparr>in_method = ''GET'', in_path = ''/acme/widgets/v1.2.3''\<rparr> rw0 world0"
  by (simp add: ServeHTTP_def findHandler_def mux_table matches_method_def segments_def clean_def)

text \<open>
  Claim C9, as amended. For a request of any method, the mux answers a path that is not
  clean with a redirect (unless the method is \<open>CONNECT\<close>); otherwise it hands the request
  to \<open>taggedHandler\<close> when the path has three segments, to \<open>taggedFileHandler\<close> when it has
  four, or six of which the third is \<open>releases\<close> and the fourth \<open>download\<close>, the last
  segment not being empty in each case; and every other path gets the not-found answer
  of the mux.
\<close>

theorem mux_serves_three_patterns_for_any_method:
  "findHandler mux m path =
     (if m \<noteq> ''CONNECT'' \<and> \<not> clean (segments path) then MovedPermanently
      else if length (segments path) = 3 \<and> last (segments path) \<noteq> []
      then Found TaggedHandler
             [(''user'', segments path ! 0), (''repo'', segments path ! 1), (''tag'', segments path ! 2)]
      else if length (segments path) = 4 \<and> last (segments path) \<noteq> []
      then Found TaggedFileHandler
             [(''user'', segments path ! 0), (''repo'', segments path ! 1), (''tag'', segments path ! 2),
              (''file'', segments path ! 3)]
      else if length (segments path) = 6 \<and> segments path ! 2 = ''releases'' \<and>
              segments path ! 3 = ''download'' \<and> last (segments path) \<noteq> []
      then Found TaggedFileHandler
             [(''user'', segments path ! 0), (''repo'', segments path ! 1), (''tag'', segments path ! 4),
              (''file'', segments path ! 5)]
      else NotFound)"
  by (simp add: findHandler_def mux_table matches_method_def match3 match4 match6)

theorem mux_serves_three_patterns_for_any_method_witness:
  "findHandler mux ''DELETE'' ''/acme/widgets/v1.2.3'' =
     Found TaggedHandler [(''user'', ''acme''), (''repo'', ''widgets''), (''tag'', ''v1.2.3'')] \<and>
   findHandler mux ''HEAD'' ''/acme/widgets/v1.2.3/x.zip'' =
     Found TaggedFileHandler
       [(''user'', ''acme''), (''repo'', ''widgets''), (''tag'', ''v1.2.3''), (''file'', ''x.zip'')] \<and>
   findHandler mux ''GET'' ''/acme/widgets/releases/download/v1.2.3/x.zip'' =
     Found TaggedFileHandler
       [(''user'', ''acme''), (''repo'', ''widgets''), (''tag'', ''v1.2.3''), (''file'', ''x.zip'')] \<and>
   findHandler mux ''GET'' ''/acme/widgets'' = NotFound \<and>
   findHandler mux ''GET'' ''/acme/widgets/v1.2.3/'' = NotFound \<and>
   findHandler mux ''GET'' ''/acme/widgets/a/b/c'' = NotFound \<and>
   findHandler mux ''GET'' ''/acme//widgets/v1.2.3'' = MovedPermanently"
proof -
  have s: "segments ''/acme/widgets/v1.2.3'' = [''acme'', ''widgets'', ''v1.2.3'']"
    "segments ''/acme/widgets/v1.2.3/x.zip'' = [''acme'', ''widgets'', ''v1.2.3'', ''x.zip'']"
    "segments ''/acme/widgets/releases/download/v1.2.3/x.zip'' =
       [''acme'', ''widgets'', ''releases'', ''download'', ''v1.2.3'', ''x.zip'']"
    "segments ''/acme/widgets'' = [''acme'', ''widgets'']"
    "segments ''/acme/widgets/v1.2.3/'' = [''acme'', ''widgets'', ''v1.2.3'', []]"
    "segments ''/acme/widgets/a/b/c'' = [''acme'', ''widgets'', ''a'', ''b'', ''c'']"
    "segments ''/acme//widgets/v1.2.3'' = [''acme'', [], ''widgets'', ''v1.2.3'']"
    by (simp_all add: segments_def)
  show ?thesis
    using mux_serves_three_patterns_for_any_method [of "''DELETE''" "''/acme/widgets/v1.2.3''"]
      mux_serves_three_patterns_for_any_method [of "''HEAD''" "''/acme/widgets/v1.2.3/x.zip''"]
      mux_serves_three_patterns_for_any_method
        [of "''GET''" "''/acme/widgets/releases/download/v1.2.3/x.zip''"]
      mux_serves_three_patterns_for_any_method [of "''GET''" "''/acme/widgets''"]
      mux_serves_three_patterns_for_any_method [of "''GET''" "''/acme/widgets/v1.2.3/''"]
      mux_serves_three_patterns_for_any_method [of "''GET''" "''/acme/widgets/a/b/c''"]
      mux_serves_three_patterns_for_any_method [of "''GET''" "''/acme//widgets/v1.2.3''"]
    by (simp add: s clean_def)
qed

section \<open>Properties: the release handlers\<close>

lemma taggedFileHandler_loop_no_match:
  "\<forall>b\<in>set fs. Name b \<noteq> fname \<Longrightarrow> taggedFileHandler_loop E ctx fname fs rw w = None"
  by (induction fs) auto

lemma taggedHandler_loop_no_match:
  "\<forall>b\<in>set fs. Name b \<noteq> tag \<Longrightarrow> taggedHandler_loop E ctx tag fs rw w = None"
  by (induction fs) auto

lemma taggedFileHandler_loop_first_match:
  "\<forall>b\<in>set pre. Name b \<noteq> fname \<Longrightarrow> Name a = fname \<Longrightarrow>
   taggedFileHandler_loop E ctx fname (pre @ a # post) rw w =
     (case file_asset E ctx a w of
        (Inl err, w1) \<Rightarrow> Some (http_Error (''Error fetching file content: '' @ msg err) 500 rw, w1)
      | (Inr d, w1) \<Rightarrow> Some (io_Copy d rw, w1))"
  by (induction pre) auto

text \<open>The two handlers run the same loop, \<open>taggedHandler\<close> with the tag as the name.\<close>

lemma taggedHandler_loop_same:
  "taggedHandler_loop E ctx name fs rw w = taggedFileHandler_loop E ctx name fs rw w"
  by (induction fs) auto

lemma status_http_Error: "wroteHeader rw = None \<Longrightarrow> status (http_Error e c rw) = c"
  by (simp add: http_Error_def Write_def WriteHeader_def status_def Let_def)

text \<open>
  What \<open>taggedFileHandler\<close> does when no asset has the name of the file: status 404, and the
  state is the one the release request left.
\<close>

lemma taggedFileHandler_not_found:
  assumes "files E (withRepo (PathValue vals ''user'') (PathValue vals ''repo''))
             (PathValue vals ''user'') (PathValue vals ''repo'') (PathValue vals ''tag'') w = (Inr fs, w1)"
    and "\<forall>b\<in>set fs. Name b \<noteq> PathValue vals ''file''"
  shows "taggedFileHandler E vals rw w = (http_Error ''File not found in release assets'' 404 rw, w1)"
  using assms by (simp add: taggedFileHandler_def Let_def taggedFileHandler_loop_no_match)

text \<open>
  What \<open>taggedHandler\<close> does when no asset has the name of the tag: it writes nothing, so
  the response is an empty 200.
\<close>

lemma taggedHandler_no_match:
  assumes "files E (withRepo (PathValue vals ''user'') (PathValue vals ''repo''))
             (PathValue vals ''user'') (PathValue vals ''repo'') (PathValue vals ''tag'') w = (Inr fs, w1)"
    and "\<forall>b\<in>set fs. Name b \<noteq> PathValue vals ''tag''"
  shows "taggedHandler E vals rw w = (rw, w1)"
  using assms by (simp add: taggedHandler_def Let_def taggedHandler_loop_no_match)

lemmas proxy_defs = files_def file_asset_def client_Do_def RoundTrip_def repoFromContext_def
  withRepo_def PathValue_def

lemmas writer_defs = http_Error_def Write_def WriteHeader_def io_Copy_def status_def rw0_def

lemma segments_examples:
  "segments ''/acme/widgets/v1.2.3'' = [''acme'', ''widgets'', ''v1.2.3'']"
  "segments ''/acme/widgets/v1.2.3/missing.zip'' = [''acme'', ''widgets'', ''v1.2.3'', ''missing.zip'']"
  "segments ''/acme/widgets/v1.2.3/checksums.txt'' = [''acme'', ''widgets'', ''v1.2.3'', ''checksums.txt'']"
  "segments ''/acme/widgets/releases/download/v1.2.3/widgets.tar.gz'' =
     [''acme'', ''widgets'', ''releases'', ''download'', ''v1.2.3'', ''widgets.tar.gz'']"
  by (simp_all add: segments_def)

lemma files_acme:
  "files (github [acme]) (withRepo ''acme'' ''widgets'') ''acme'' ''widgets'' ''v1.2.3'' world0 =
     (Inr assets0,
      call (DefaultRoundTrip (Header_Set ''Authorization'' ''token ghs42''
                                (release_request (withRepo ''acme'' ''widgets'')))) world1)"
  using TokenForRepo_acme
  by (simp add: proxy_defs github_def NewRequest_def release_request_def ok_def Header_Set_def)

lemma route_examples:
  "findHandler mux ''GET'' ''/acme/widgets/v1.2.3'' =
     Found TaggedHandler [(''user'', ''acme''), (''repo'', ''widgets''), (''tag'', ''v1.2.3'')]"
  "findHandler mux ''GET'' ''/acme/widgets/v1.2.3/missing.zip'' =
     Found TaggedFileHandler
       [(''user'', ''acme''), (''repo'', ''widgets''), (''tag'', ''v1.2.3''), (''file'', ''missing.zip'')]"
  "findHandler mux ''GET'' ''/acme/widgets/v1.2.3/checksums.txt'' =
     Found TaggedFileHandler
       [(''user'', ''acme''), (''repo'', ''widgets''), (''tag'', ''v1.2.3''), (''file'', ''checksums.txt'')]"
  "findHandler mux ''GET'' ''/acme/widgets/releases/download/v1.2.3/widgets.tar.gz'' =
     Found TaggedFileHandler
       [(''user'', ''acme''), (''repo'', ''widgets''), (''tag'', ''v1.2.3''), (''file'', ''widgets.tar.gz'')]"
  by (simp_all add: findHandler_def mux_table matches_method_def segments_examples clean_def)

text \<open>
  Claim C2 fails on the route \<open>/{user}/{repo}/{tag}\<close>. The release \<open>v1.2.3\<close> of
  \<open>acme/widgets\<close> has the assets \<open>widgets.tar.gz\<close> and \<open>checksums.txt\<close>, none named
  \<open>v1.2.3\<close>. \<open>GET /acme/widgets/v1.2.3\<close> makes the release request and no other one, and
  the handler returns without writing: the response is an empty 200, not a 404. On the
  route with a file name, \<open>GET /acme/widgets/v1.2.3/missing.zip\<close> is answered with 404
  after the same single request.
\<close>

theorem taggedHandler_no_asset_empty_200:
  "map Name assets0 = [''widgets.tar.gz'', ''checksums.txt''] \<and>
   ServeHTTP (github [acme]) \<lparr>in_method = ''GET'', in_path = ''/acme/widgets/v1.2.3''\<rparr> rw0 world0 =
     (rw0,
      call (DefaultRoundTrip (Header_Set ''Authorization'' ''token ghs42''
                                (release_request (withRepo ''acme'' ''widgets'')))) world1) \<and>
   status rw0 = 200 \<and> written rw0 = [] \<and>
   ServeHTTP (github [acme]) \<lparr>in_method = ''GET'', in_path = ''/acme/widgets/v1.2.3/missing.zip''\<rparr>
       rw0 world0 =
     (\<lparr>wroteHeader = Some 404, written = ''File not found in release assets'' @ [CHR 0x0A]\<rparr>,
      call (DefaultRoundTrip (Header_Set ''Authorization'' ''token ghs42''
                                (release_request (withRepo ''acme'' ''widgets'')))) world1)"
proof -
  let ?w = "call (DefaultRoundTrip (Header_Set ''Authorization'' ''token ghs42''
                                (release_request (withRepo ''acme'' ''widgets'')))) world1"
  let ?vals3 = "map_of [(''user'', ''acme''), (''repo'', ''widgets''), (''tag'', ''v1.2.3'')]"
  let ?vals4 = "map_of [(''user'', ''acme''), (''repo'', ''widgets''), (''tag'', ''v1.2.3''),
                        (''file'', ''missing.zip'')]"
  have n: "map Name assets0 = [''widgets.tar.gz'', ''checksums.txt'']"
    by (simp add: assets0_def)
  have f: "files (github [acme])
             (withRepo (PathValue ?vals3 ''user'')
                       (PathValue ?vals3 ''repo''))
             (PathValue ?vals3 ''user'')
             (PathValue ?vals3 ''repo'')
             (PathValue ?vals3 ''tag'')
             world0 = (Inr assets0, ?w)"
    using files_acme by (simp add: PathValue_def)
  have "\<forall>b\<in>set assets0.
          Name b \<noteq> PathValue ?vals3 ''tag''"
    by (simp add: assets0_def PathValue_def)
  from taggedHandler_no_match [OF f this]
  have 1: "ServeHTTP (github [acme]) \<lparr>in_method = ''GET'', in_path = ''/acme/widgets/v1.2.3''\<rparr> rw0 world0 =
     (rw0, ?w)"
    by (simp add: ServeHTTP_def route_examples)
  have g: "files (github [acme])
             (withRepo (PathValue ?vals4 ''user'')
                       (PathValue ?vals4 ''repo''))
             (PathValue ?vals4 ''user'')
             (PathValue ?vals4 ''repo'')
             (PathValue ?vals4 ''tag'')
             world0 = (Inr assets0, ?w)"
    using files_acme by (simp add: PathValue_def)
  have "\<forall>b\<in>set assets0.
          Name b \<noteq> PathValue ?vals4 ''file''"
    by (simp add: assets0_def PathValue_def)
  from taggedFileHandler_not_found [OF g this]
  have 2: "ServeHTTP (github [acme]) \<lparr>in_method = ''GET'', in_path = ''/acme/widgets/v1.2.3/missing.zip''\<rparr>
       rw0 world0 =
     (\<lparr>wroteHeader = Some 404, written = ''File not found in release assets'' @ [CHR 0x0A]\<rparr>, ?w)"
    by (simp add: ServeHTTP_def route_examples writer_defs)
  show ?thesis using n 1 2 by (simp add: writer_defs)
qed

text \<open>
  Claim C7. Let the release request of \<open>taggedFileHandler\<close> return a list of assets in
  which \<open>a\<close> is the first whose name is equal to the file name of the request: every
  asset before it has another name, whatever else it shares with the file name. Then the
  handler makes exactly one more request through its client: a \<open>GET\<close> of the \<open>URL\<close> field
  of \<open>a\<close>, with the header \<open>Accept: application/octet-stream\<close> and the context of the
  owner and repo. When that request fails, or is answered with a status other than 200,
  the response is a 500; when it is answered with 200, the body is copied to the
  response.
\<close>

theorem taggedFileHandler_first_exact_match:
  assumes "files E (withRepo (PathValue vals ''user'') (PathValue vals ''repo''))
             (PathValue vals ''user'') (PathValue vals ''repo'') (PathValue vals ''tag'') w =
           (Inr (pre @ a # post), w1)"
    and "Name a = PathValue vals ''file''"
    and "\<forall>b\<in>set pre. Name b \<noteq> PathValue vals ''file''"
    and "url_error E (URL a) = None"
    and "client_Do E \<lparr>req_method = ''GET'', req_url = URL a,
                       req_header = [''Accept'' \<mapsto> ''application/octet-stream''],
                       req_ctx = withRepo (PathValue vals ''user'') (PathValue vals ''repo'')\<rparr> w1 =
           (r, w2)"
    and "wroteHeader rw = None"
  shows "taggedFileHandler E vals rw w =
           (case r of
              Inl err \<Rightarrow>
                (http_Error (''Error fetching file content: error making request for asset: '' @ msg err)
                   500 rw, w2)
            | Inr resp \<Rightarrow>
                if StatusCode resp = 200 then (io_Copy (Body resp) rw, w2)
                else (http_Error (''Error fetching file content: GitHub API returned non-200 status for asset: ''
                                  @ Status resp) 500 rw, w2)) \<and>
         (case r of
            Inl err \<Rightarrow> status (fst (taggedFileHandler E vals rw w)) = 500
          | Inr resp \<Rightarrow>
              StatusCode resp \<noteq> 200 \<longrightarrow> status (fst (taggedFileHandler E vals rw w)) = 500)"
proof -
  let ?ctx = "withRepo (PathValue vals ''user'') (PathValue vals ''repo'')"
  have fa: "file_asset E ?ctx a w1 =
          (case r of
             Inl err \<Rightarrow> (Inl (wrap ''error making request for asset: '' err), w2)
           | Inr resp \<Rightarrow>
               if StatusCode resp \<noteq> 200
               then (Inl (Errorf (''GitHub API returned non-200 status for asset: '' @ Status resp)), w2)
               else (Inr (Body resp), w2))"
    using assms(4,5)
    by (simp add: file_asset_def NewRequest_def Header_Set_def split: sum.splits)
  have h: "taggedFileHandler E vals rw w =
          (case file_asset E ?ctx a w1 of
             (Inl err, w') \<Rightarrow> (http_Error (''Error fetching file content: '' @ msg err) 500 rw, w')
           | (Inr d, w') \<Rightarrow> (io_Copy d rw, w'))"
    using assms(1) taggedFileHandler_loop_first_match [OF assms(3) assms(2), of E ?ctx post rw w1]
    by (simp add: taggedFileHandler_def Let_def split: prod.splits sum.splits)
  have 1: "taggedFileHandler E vals rw w =
           (case r of
              Inl err \<Rightarrow>
                (http_Error (''Error fetching file content: error making request for asset: '' @ msg err)
                   500 rw, w2)
            | Inr resp \<Rightarrow>
                if StatusCode resp = 200 then (io_Copy (Body resp) rw, w2)
                else (http_Error (''Error fetching file content: GitHub API returned non-200 status for asset: ''
                                  @ Status resp) 500 rw, w2))"
    unfolding h fa by (simp add: wrap_def split: sum.splits)
  have 2: "(case r of
            Inl err \<Rightarrow> status (fst (taggedFileHandler E vals rw w)) = 500
          | Inr resp \<Rightarrow>
              StatusCode resp \<noteq> 200 \<longrightarrow> status (fst (taggedFileHandler E vals rw w)) = 500)"
    unfolding 1 using assms(6) by (simp add: status_http_Error split: sum.splits)
  show ?thesis using 1 2 by blast
qed

lemma files_names:
  "files github_names (withRepo ''acme'' ''widgets'') ''acme'' ''widgets'' ''v1.2.3'' world0 =
     (Inr assets1, world_release)"
proof -
  have "TokenForRepo github_names ''acme'' ''widgets'' world0 = (Inr ''ghs42'', world1)"
    by (simp add: run_defs mock_defs github_names_def world0_def world1_def)
  then show ?thesis
    by (simp add: proxy_defs github_names_def github_def NewRequest_def release_request_def ok_def
        Header_Set_def world_release_def)
qed

lemma client_Do_asset:
  "cache w ''acme'' = Some (InstallationTokenSource 0 42) \<Longrightarrow> installationId w = None \<Longrightarrow>
   source_token E (trace w) (InstallationTokenSource 0 42) = Inr ''ghs42'' \<Longrightarrow>
   client_Do E (asset_request url) w =
     (round_trip E (trace w @ [SourceToken (InstallationTokenSource 0 42)])
        (Header_Set ''Authorization'' ''token ghs42'' (asset_request url)),
      call (DefaultRoundTrip (Header_Set ''Authorization'' ''token ghs42'' (asset_request url)))
        (call (SourceToken (InstallationTokenSource 0 42)) w))"
  by (simp add: client_Do_def RoundTrip_def repoFromContext_def asset_request_def withRepo_def
      TokenForRepo_def Token_def Let_def)

lemma world_release_fields:
  "cache world_release ''acme'' = Some (InstallationTokenSource 0 42)"
  "installationId world_release = None"
  by (simp_all add: world_release_def world1_def world0_def)

theorem taggedFileHandler_first_exact_match_witness:
  "map Name assets1 = [''Checksums.txt'', ''checksums'', ''checksums.txt'', ''checksums.txt''] \<and>
   map URL assets1 = [''U3'', ''U4'', ''U2'', ''U5''] \<and>
   ServeHTTP github_names \<lparr>in_method = ''GET'', in_path = ''/acme/widgets/v1.2.3/checksums.txt''\<rparr>
       rw0 world0 =
     (\<lparr>wroteHeader = Some 200, written = ''checksum bytes''\<rparr>,
      call (DefaultRoundTrip (Header_Set ''Authorization'' ''token ghs42'' (asset_request ''U2'')))
        (call (SourceToken (InstallationTokenSource 0 42)) world_release)) \<and>
   ServeHTTP (github [acme])
       \<lparr>in_method = ''GET'', in_path = ''/acme/widgets/releases/download/v1.2.3/widgets.tar.gz''\<rparr>
       rw0 world0 =
     (\<lparr>wroteHeader = Some 500,
       written = ''Error fetching file content: GitHub API returned non-200 status for asset: 404 Not Found''
                 @ [CHR 0x0A]\<rparr>,
      call (DefaultRoundTrip (Header_Set ''Authorization'' ''token ghs42'' (asset_request ''U1'')))
        (call (SourceToken (InstallationTokenSource 0 42)) world_release))"
proof -
  let ?vals = "map_of [(''user'', ''acme''), (''repo'', ''widgets''), (''tag'', ''v1.2.3''),
                       (''file'', ''checksums.txt'')]"
  let ?vals' = "map_of [(''user'', ''acme''), (''repo'', ''widgets''), (''tag'', ''v1.2.3''),
                        (''file'', ''widgets.tar.gz'')]"
  let ?a = "\<lparr>Name = ''checksums.txt'', ContentType = ''text/plain'',
             BrowserDownloadURL = ''B2'', URL = ''U2''\<rparr>"
  let ?pre = "[\<lparr>Name = ''Checksums.txt'', ContentType = ''text/plain'',
                BrowserDownloadURL = ''B3'', URL = ''U3''\<rparr>,
               \<lparr>Name = ''checksums'', ContentType = ''text/plain'',
                BrowserDownloadURL = ''B4'', URL = ''U4''\<rparr>]"
  let ?post = "[\<lparr>Name = ''checksums.txt'', ContentType = ''text/plain'',
                 BrowserDownloadURL = ''B5'', URL = ''U5''\<rparr>]"
  let ?a' = "\<lparr>Name = ''widgets.tar.gz'', ContentType = ''application/gzip'',
              BrowserDownloadURL = ''B1'', URL = ''U1''\<rparr>"
  let ?post' = "[\<lparr>Name = ''checksums.txt'', ContentType = ''text/plain'',
                  BrowserDownloadURL = ''B2'', URL = ''U2''\<rparr>]"
  let ?w2 = "\<lambda>url. call (DefaultRoundTrip (Header_Set ''Authorization'' ''token ghs42'' (asset_request url)))
        (call (SourceToken (InstallationTokenSource 0 42)) world_release)"
  have names: "map Name assets1 = [''Checksums.txt'', ''checksums'', ''checksums.txt'', ''checksums.txt'']"
    "map URL assets1 = [''U3'', ''U4'', ''U2'', ''U5'']"
    by (simp_all add: assets1_def)
  have 1: "files github_names (withRepo (PathValue ?vals ''user'') (PathValue ?vals ''repo''))
             (PathValue ?vals ''user'') (PathValue ?vals ''repo'') (PathValue ?vals ''tag'') world0 =
           (Inr (?pre @ ?a # ?post), world_release)"
    using files_names by (simp add: PathValue_def assets1_def)
  have 2: "Name ?a = PathValue ?vals ''file''" by (simp add: PathValue_def)
  have 3: "\<forall>b\<in>set ?pre. Name b \<noteq> PathValue ?vals ''file''" by (simp add: PathValue_def)
  have 4: "url_error github_names (URL ?a) = None" by (simp add: github_names_def github_def)
  have 5: "client_Do github_names
             \<lparr>req_method = ''GET'', req_url = URL ?a,
              req_header = [''Accept'' \<mapsto> ''application/octet-stream''],
              req_ctx = withRepo (PathValue ?vals ''user'') (PathValue ?vals ''repo'')\<rparr> world_release =
           (Inr (ok ''checksum bytes''), ?w2 ''U2'')"
    using client_Do_asset [of world_release github_names "''U2''"] world_release_fields
    by (simp add: asset_request_def PathValue_def github_names_def mock_defs Header_Set_def)
  have 6: "wroteHeader rw0 = None" by (simp add: rw0_def)
  have a: "taggedFileHandler github_names ?vals rw0 world0 =
             (\<lparr>wroteHeader = Some 200, written = ''checksum bytes''\<rparr>, ?w2 ''U2'')"
    using taggedFileHandler_first_exact_match [OF 1 2 3 4 5 6]
    by (simp add: ok_def writer_defs)
  have 1: "files (github [acme]) (withRepo (PathValue ?vals' ''user'') (PathValue ?vals' ''repo''))
             (PathValue ?vals' ''user'') (PathValue ?vals' ''repo'') (PathValue ?vals' ''tag'') world0 =
           (Inr ([] @ ?a' # ?post'), world_release)"
    using files_acme by (simp add: PathValue_def assets0_def world_release_def)
  have 2: "Name ?a' = PathValue ?vals' ''file''" by (simp add: PathValue_def)
  have 3: "\<forall>b\<in>set []. Name b \<noteq> PathValue ?vals' ''file''" by simp
  have 4: "url_error (github [acme]) (URL ?a') = None" by (simp add: github_def)
  have 5: "client_Do (github [acme])
             \<lparr>req_method = ''GET'', req_url = URL ?a',
              req_header = [''Accept'' \<mapsto> ''application/octet-stream''],
              req_ctx = withRepo (PathValue ?vals' ''user'') (PathValue ?vals' ''repo'')\<rparr> world_release =
           (Inr not_found, ?w2 ''U1'')"
    using client_Do_asset [of world_release "github [acme]" "''U1''"] world_release_fields
    by (simp add: asset_request_def PathValue_def mock_defs Header_Set_def)
  have b: "taggedFileHandler (github [acme]) ?vals' rw0 world0 =
             (\<lparr>wroteHeader = Some 500,
               written = ''Error fetching file content: GitHub API returned non-200 status for asset: 404 Not Found''
                 @ [CHR 0x0A]\<rparr>, ?w2 ''U1'')"
    using taggedFileHandler_first_exact_match [OF 1 2 3 4 5 6]
    by (simp add: not_found_def writer_defs)
  show ?thesis using names a b by (simp add: ServeHTTP_def route_examples)
qed

end
